theory Spec2Isabelle
  imports Complex_Main "HOL-Library.Word"
begin

section \<open>JavaScript values\<close>

text \<open>
  A JavaScript number. Finite doubles are idealised as exact rationals (no rounding
  error); the arithmetic identifies the two zeros, which the values below keep apart.
  The special values and the branches that produce them (division by zero, arithmetic
  on NaN) are written out.
\<close>

datatype number = NaN | NegInfinity | PosInfinity | Finite rat

fun num_neg :: "number \<Rightarrow> number" where
  "num_neg NaN = NaN"
| "num_neg NegInfinity = PosInfinity"
| "num_neg PosInfinity = NegInfinity"
| "num_neg (Finite a) = Finite (- a)"

fun num_add :: "number \<Rightarrow> number \<Rightarrow> number" where
  "num_add (Finite a) (Finite b) = Finite (a + b)"
| "num_add NaN y = NaN"
| "num_add x NaN = NaN"
| "num_add PosInfinity NegInfinity = NaN"
| "num_add NegInfinity PosInfinity = NaN"
| "num_add PosInfinity y = PosInfinity"
| "num_add NegInfinity y = NegInfinity"
| "num_add (Finite a) y = y"

definition num_sub :: "number \<Rightarrow> number \<Rightarrow> number" where
  "num_sub x y = num_add x (num_neg y)"

text \<open>The sign of a number that is not NaN: -1, 0 or 1.\<close>

fun num_sign :: "number \<Rightarrow> int" where
  "num_sign NaN = 0"
| "num_sign NegInfinity = - 1"
| "num_sign PosInfinity = 1"
| "num_sign (Finite a) = (if a < 0 then - 1 else if a = 0 then 0 else 1)"

definition signed_infinity :: "int \<Rightarrow> number" where
  "signed_infinity s = (if s = 0 then NaN else if s < 0 then NegInfinity else PosInfinity)"

fun num_mul :: "number \<Rightarrow> number \<Rightarrow> number" where
  "num_mul (Finite a) (Finite b) = Finite (a * b)"
| "num_mul NaN y = NaN"
| "num_mul x NaN = NaN"
| "num_mul x y = signed_infinity (num_sign x * num_sign y)"

fun num_div :: "number \<Rightarrow> number \<Rightarrow> number" where
  "num_div (Finite a) (Finite b) =
     (if b = 0 then signed_infinity (num_sign (Finite a)) else Finite (a / b))"
| "num_div NaN y = NaN"
| "num_div x NaN = NaN"
| "num_div (Finite a) y = Finite 0"
| "num_div x (Finite b) = signed_infinity (num_sign x * (if b < 0 then - 1 else 1))"
| "num_div x y = NaN"

text \<open>The comparison operators: every comparison with NaN is false.\<close>

fun num_less :: "number \<Rightarrow> number \<Rightarrow> bool" where
  "num_less (Finite a) (Finite b) = (a < b)"
| "num_less NaN y = False"
| "num_less x NaN = False"
| "num_less NegInfinity NegInfinity = False"
| "num_less NegInfinity y = True"
| "num_less x NegInfinity = False"
| "num_less PosInfinity y = False"
| "num_less x PosInfinity = True"

definition num_greater :: "number \<Rightarrow> number \<Rightarrow> bool" where
  "num_greater x y = num_less y x"

definition num_le :: "number \<Rightarrow> number \<Rightarrow> bool" where
  "num_le x y = (num_less x y \<or> (x = y \<and> x \<noteq> NaN))"

definition num_ge :: "number \<Rightarrow> number \<Rightarrow> bool" where
  "num_ge x y = num_le y x"

text \<open>\<^verbatim>\<open>Math.min\<close>, \<^verbatim>\<open>Math.max\<close> and \<^verbatim>\<open>Math.round\<close> (round half up).\<close>

definition Math_min :: "number \<Rightarrow> number \<Rightarrow> number" where
  "Math_min x y = (if x = NaN \<or> y = NaN then NaN else if num_less y x then y else x)"

definition Math_max :: "number \<Rightarrow> number \<Rightarrow> number" where
  "Math_max x y = (if x = NaN \<or> y = NaN then NaN else if num_less x y then y else x)"

fun Math_round :: "number \<Rightarrow> number" where
  "Math_round (Finite a) = Finite (of_int \<lfloor>a + 1 / 2\<rfloor>)"
| "Math_round x = x"

text \<open>Truthiness of a number: zero and NaN are falsy.\<close>

definition num_truthy :: "number \<Rightarrow> bool" where
  "num_truthy x = (x \<noteq> NaN \<and> x \<noteq> Finite 0)"

text \<open>
  A JavaScript string is a sequence of UTF-16 code units, and \<^verbatim>\<open>length\<close> counts
  code units. \<open>lit\<close> embeds an ASCII literal.
\<close>

type_synonym jsstring = "16 word list"

definition lit :: "string \<Rightarrow> jsstring" where
  "lit s = map of_char s"

text \<open>
  A JavaScript value. Objects and functions are references: two of them are the same
  value exactly when they are the same reference, whatever they hold. Among the values
  the two zeros are kept apart: \<open>JNumber (Finite 0)\<close> is +0 and \<open>JNegativeZero\<close> is -0
  (every other number \<open>n\<close> is \<open>JNumber n\<close>). With this representation \<^verbatim>\<open>Object.is\<close>,
  which holds of NaN and NaN and not of +0 and -0, is equality of the representing
  terms.
\<close>

datatype jsval =
    JUndefined
  | JNull
  | JBoolean bool
  | JNumber number
  | JNegativeZero
  | JBigInt int
  | JString jsstring
  | JSymbol nat
  | JObject nat
  | JFunction nat

definition Object_is :: "jsval \<Rightarrow> jsval \<Rightarrow> bool" where
  "Object_is a b = (a = b)"

datatype js_type =
    T_undefined | T_object | T_boolean | T_number | T_bigint | T_string | T_symbol | T_function

fun typeof :: "jsval \<Rightarrow> js_type" where
  "typeof JUndefined = T_undefined"
| "typeof JNull = T_object"
| "typeof (JBoolean b) = T_boolean"
| "typeof (JNumber n) = T_number"
| "typeof JNegativeZero = T_number"
| "typeof (JBigInt i) = T_bigint"
| "typeof (JString s) = T_string"
| "typeof (JSymbol r) = T_symbol"
| "typeof (JObject r) = T_object"
| "typeof (JFunction r) = T_function"


section \<open>Exceptions\<close>

text \<open>
  A thrown value. A computation that may throw returns \<open>exn + 'a\<close>, with \<open>Inl\<close>
  the exception. A computation with effects on a state \<open>'w\<close> is an action: it returns
  the exception it threw, if any, and the state it left behind (the effects made
  before a throw stay made).
\<close>

datatype exn = Error string | Thrown jsval

type_synonym 'w action = "'w \<Rightarrow> exn option \<times> 'w"

definition and_then :: "exn + 'a \<Rightarrow> ('a \<Rightarrow> exn + 'b) \<Rightarrow> exn + 'b" where
  "and_then m f = (case m of Inl e \<Rightarrow> Inl e | Inr v \<Rightarrow> f v)"

definition skip :: "'w action" where
  "skip w = (None, w)"

definition seq :: "'w action \<Rightarrow> 'w action \<Rightarrow> 'w action" where
  "seq a b w = (case a w of (Some e, w') \<Rightarrow> (Some e, w') | (None, w') \<Rightarrow> b w')"

definition eval_then :: "exn + 'a \<Rightarrow> ('a \<Rightarrow> 'w action) \<Rightarrow> 'w action" where
  "eval_then m k w = (case m of Inl e \<Rightarrow> (Some e, w) | Inr v \<Rightarrow> k v w)"

fun for_each :: "('a \<Rightarrow> 'w action) \<Rightarrow> 'a list \<Rightarrow> 'w action" where
  "for_each body [] = skip"
| "for_each body (x # xs) = seq (body x) (for_each body xs)"

text \<open>The operator \<^verbatim>\<open>??\<close> on values that may be null or undefined (\<open>None\<close>).\<close>

definition nullish :: "'a option \<Rightarrow> 'a option \<Rightarrow> 'a option" where
  "nullish a b = (case a of None \<Rightarrow> b | Some v \<Rightarrow> Some v)"

section \<open>The host tree\<close>

text \<open>
  A props object: a plain object, given by its own enumerable properties (each key
  once) in the order of their creation. What it inherits is what \<^verbatim>\<open>Object.prototype\<close>
  holds, a parameter below.
\<close>

type_synonym props = "(jsstring \<times> jsval) list"

record ContextDependency =
  dep_context :: jsval
  memoizedValue :: jsval

text \<open>
  A node of the host tree, with the fields the engine reads. \<open>children\<close> holds the
  \<^verbatim>\<open>child\<close>/\<^verbatim>\<open>sibling\<close> chain, \<open>fiber_return\<close> the parent, \<open>dependencies\<close> the
  context dependency list (empty when the node reads no context); \<open>stateNode\<close> is
  \<open>Some n\<close> when the node's state node is the HTML element \<open>n\<close>.
\<close>

datatype Fiber = Fiber
  (fiber_type: jsval)
  (elementType: jsval)
  (memoizedProps: "props option")
  (alternate: "Fiber option")
  (dependencies: "ContextDependency list")
  (fiber_return: "Fiber option")
  (children: "Fiber list")
  (stateNode: "nat option")

record FiberRoot =
  memoizedUpdaters :: "Fiber list option"
  current :: Fiber

section \<open>Change detection\<close>

record Change =
  name :: jsstring
  prevValue :: jsval
  nextValue :: jsval
  unstable :: bool

datatype render_type = Props | Context

record Render =
  render_type :: render_type
  render_name :: "jsstring option"
  time :: number
  count :: int
  trigger :: bool
  forget :: bool
  changes :: "Change list option"

text \<open>
  The helpers the instrumentation imports from \<^verbatim>\<open>./utils\<close>, \<^verbatim>\<open>./fiber\<close> and the UI
  library, whose bodies are not part of the sources. They are parameters of the model;
  each may throw. With them comes \<^verbatim>\<open>Object.prototype\<close>, which every plain object
  inherits from: its properties in the order of their enumeration, each with its value
  and whether it is enumerable.
\<close>

record externals =
  getType :: "jsval \<Rightarrow> exn + jsval option"
  getDisplayName :: "jsval \<Rightarrow> exn + jsstring option"
  fastSerialize :: "jsval \<Rightarrow> exn + jsstring"
  isValidElement :: "jsval \<Rightarrow> bool"
  didFiberRender :: "Fiber \<Rightarrow> exn + bool"
  getSelfTime :: "Fiber \<Rightarrow> exn + number"
  hasMemoCache :: "Fiber \<Rightarrow> exn + bool"
  objectPrototype :: "(jsstring \<times> jsval \<times> bool) list"

definition unstableTypes :: "js_type list" where
  "unstableTypes = [T_function, T_object]"

text \<open>
  \<^verbatim>\<open>obj?.[key]\<close>: undefined when the object is absent; else the object's own property,
  else the one it inherits, else undefined.
\<close>

definition get_prop :: "externals \<Rightarrow> props option \<Rightarrow> jsstring \<Rightarrow> jsval" where
  "get_prop ext obj key =
     (case obj of
        None \<Rightarrow> JUndefined
      | Some ps \<Rightarrow>
          (case map_of ps key of
             Some v \<Rightarrow> v
           | None \<Rightarrow>
               (case map_of (objectPrototype ext) key of
                  Some inherited \<Rightarrow> fst inherited
                | None \<Rightarrow> JUndefined)))"

text \<open>
  An array index: the canonical decimal numeral of an integer below \<open>2^32 - 1\<close>. The
  own keys of an object are enumerated with the array indices first, ascending, and
  then the other keys in the order of their creation.
\<close>

definition is_digit :: "16 word \<Rightarrow> bool" where
  "is_digit c = (0x30 \<le> c \<and> c \<le> 0x39)"

definition digits_value :: "jsstring \<Rightarrow> int" where
  "digits_value s = foldl (\<lambda>n c. 10 * n + (uint c - 48)) 0 s"

definition array_index :: "jsstring \<Rightarrow> int option" where
  "array_index s =
     (if s \<noteq> [] \<and> list_all is_digit s \<and> (s = [0x30] \<or> take 1 s \<noteq> [0x30])
         \<and> digits_value s < 4294967295
      then Some (digits_value s) else None)"

definition own_property_keys :: "jsstring list \<Rightarrow> jsstring list" where
  "own_property_keys created =
     (let ks = rev (remdups (rev created))
      in sort_key (\<lambda>k. case array_index k of Some n \<Rightarrow> n | None \<Rightarrow> 0)
           (filter (\<lambda>k. array_index k \<noteq> None) ks)
         @ filter (\<lambda>k. array_index k = None) ks)"

text \<open>
  The keys \<^verbatim>\<open>for (const propName in { ...prevProps, ...nextProps })\<close> visits: the own
  keys of the merged object, which has the own properties of \<^verbatim>\<open>prevProps\<close> and then
  those of \<^verbatim>\<open>nextProps\<close>, and after them the enumerable keys it inherits and does not
  own.
\<close>

definition for_in_keys :: "externals \<Rightarrow> props option \<Rightarrow> props option \<Rightarrow> jsstring list" where
  "for_in_keys ext prevProps nextProps =
     (let own = own_property_keys
                  (map fst (case prevProps of None \<Rightarrow> [] | Some ps \<Rightarrow> ps)
                   @ map fst (case nextProps of None \<Rightarrow> [] | Some ps \<Rightarrow> ps));
          inherited = rev (remdups (rev (map fst
                        (filter (\<lambda>property. snd (snd property)) (objectPrototype ext)))))
      in own @ filter (\<lambda>k. k \<notin> set own) inherited)"

fun getPropsRender_loop ::
  "externals \<Rightarrow> props option \<Rightarrow> props option \<Rightarrow> jsstring list \<Rightarrow> Change list \<Rightarrow> exn + Change list"
where
  "getPropsRender_loop ext prevProps nextProps [] chs = Inr chs"
| "getPropsRender_loop ext prevProps nextProps (propName # rest) chs =
     (let prevValue = get_prop ext prevProps propName;
          nextValue = get_prop ext nextProps propName
      in if Object_is prevValue nextValue \<or> isValidElement ext prevValue
            \<or> isValidElement ext nextValue \<or> propName = lit ''children''
         then getPropsRender_loop ext prevProps nextProps rest chs
         else
           let change = \<lparr> name = propName, prevValue = prevValue, nextValue = nextValue,
                          unstable = False \<rparr>
           in and_then (fastSerialize ext prevValue) (\<lambda>prevValueString.
              and_then (fastSerialize ext nextValue) (\<lambda>nextValueString.
                if typeof prevValue \<notin> set unstableTypes \<or> typeof nextValue \<notin> set unstableTypes
                   \<or> prevValueString \<noteq> nextValueString
                then getPropsRender_loop ext prevProps nextProps rest (chs @ [change])
                else getPropsRender_loop ext prevProps nextProps rest
                       (chs @ [change \<lparr> unstable := True \<rparr>]))))"

definition getPropsRender :: "externals \<Rightarrow> Fiber \<Rightarrow> jsval \<Rightarrow> exn + Render option" where
  "getPropsRender ext fiber type =
     (let prevProps = (case alternate fiber of None \<Rightarrow> None | Some a \<Rightarrow> memoizedProps a);
          nextProps = memoizedProps fiber
      in and_then (getPropsRender_loop ext prevProps nextProps
                     (for_in_keys ext prevProps nextProps) [])
           (\<lambda>changes.
         and_then (getDisplayName ext type) (\<lambda>name.
         and_then (getSelfTime ext fiber) (\<lambda>time.
         and_then (hasMemoCache ext fiber) (\<lambda>forget.
           Inr (Some \<lparr> render_type = Props, render_name = name, time = time, count = 1,
                        trigger = False, forget = forget, changes = Some changes \<rparr>))))))"

text \<open>
  Modelled from the spec: \<^verbatim>\<open>traverseContexts\<close> is imported from \<^verbatim>\<open>./fiber\<close>, which is
  not among the sources. By the spec the context pass traverses the node's context
  dependency list, comparing each dependency's previous and next memoized value by the
  identity and serialization rule of the props pass, and yields null if the node has
  no context dependencies. The callback in the sources applies the serialization rule
  and makes no test of identity; so the test of identity is the traversal's: it hands
  the callback each pair of a previous and a next dependency whose memoized values are
  not identity-equal, in list order, and its result is true exactly when the node has
  context dependencies.
\<close>

fun traverseContexts_loop ::
  "(ContextDependency \<times> ContextDependency) list
   \<Rightarrow> (ContextDependency \<Rightarrow> ContextDependency \<Rightarrow> 'a \<Rightarrow> exn + 'a) \<Rightarrow> 'a \<Rightarrow> exn + 'a"
where
  "traverseContexts_loop [] selector acc = Inr acc"
| "traverseContexts_loop ((prevContext, nextContext) # rest) selector acc =
     (if Object_is (memoizedValue prevContext) (memoizedValue nextContext)
      then traverseContexts_loop rest selector acc
      else and_then (selector prevContext nextContext acc) (traverseContexts_loop rest selector))"

definition context_pairs :: "Fiber \<Rightarrow> (ContextDependency \<times> ContextDependency) list" where
  "context_pairs fiber =
     (case alternate fiber of None \<Rightarrow> [] | Some a \<Rightarrow> zip (dependencies a) (dependencies fiber))"

definition traverseContexts ::
  "Fiber \<Rightarrow> (ContextDependency \<Rightarrow> ContextDependency \<Rightarrow> 'a \<Rightarrow> exn + 'a) \<Rightarrow> 'a \<Rightarrow> exn + bool \<times> 'a"
where
  "traverseContexts fiber selector acc =
     and_then (traverseContexts_loop (context_pairs fiber) selector acc)
       (\<lambda>acc'. Inr (dependencies fiber \<noteq> [], acc'))"

text \<open>The callback \<open>getContextRender\<close> hands to the traversal; it pushes onto the array of changes \<open>chs\<close>.\<close>

definition getContextRender_selector ::
  "externals \<Rightarrow> ContextDependency \<Rightarrow> ContextDependency \<Rightarrow> Change list \<Rightarrow> exn + Change list"
where
  "getContextRender_selector ext prevContext nextContext chs =
     (let prevValue = memoizedValue prevContext;
          nextValue = memoizedValue nextContext;
          change = \<lparr> name = lit '''', prevValue = prevValue, nextValue = nextValue,
                     unstable = False \<rparr>
      in and_then (fastSerialize ext prevValue) (\<lambda>prevValueString.
         and_then (fastSerialize ext nextValue) (\<lambda>nextValueString.
           if typeof prevValue \<in> set unstableTypes \<and> typeof nextValue \<in> set unstableTypes
              \<and> prevValueString = nextValueString
           then Inr (chs @ [change \<lparr> unstable := True \<rparr>])
           else Inr (chs @ [change]))))"

definition getContextRender :: "externals \<Rightarrow> Fiber \<Rightarrow> jsval \<Rightarrow> exn + Render option" where
  "getContextRender ext fiber type =
     and_then (traverseContexts fiber (getContextRender_selector ext) []) (\<lambda>(result, changes).
       if \<not> result then Inr None
       else
         and_then (getDisplayName ext type) (\<lambda>name.
         and_then (getSelfTime ext fiber) (\<lambda>time.
         and_then (hasMemoCache ext fiber) (\<lambda>forget.
           Inr (Some \<lparr> render_type = Context, render_name = name, time = time, count = 1,
                        trigger = False, forget = forget, changes = Some changes \<rparr>)))))"

section \<open>The commit interceptor\<close>

text \<open>
  The options a component is registered with; of the configuration only the fields
  the engine's core reads are kept. \<open>onPaintStart\<close> and \<open>onPaintFinish\<close> say whether
  the consumer supplied the callback.
\<close>

record Options =
  includeChildren :: "bool option"
  log_renders :: bool
  maxRenders :: "number option"
  onPaintStart :: bool
  onPaintFinish :: bool

text \<open>
  The allow-list, a table keyed by the identity of the component type, and the part of
  \<^verbatim>\<open>ReactScanInternals\<close> the commit handler reads (taken as it stands when the commit
  starts).
\<close>

type_synonym allowList = "(jsval \<times> Options) list"

record internals =
  isPaused :: bool
  componentAllowList :: "allowList option"

text \<open>
  The world the commit handler acts on: the consumer's own state, which only the
  consumer's callbacks touch, and the lines written with \<^verbatim>\<open>console.error\<close>.
\<close>

record 'u world =
  user :: 'u
  console :: "(string \<times> exn) list"

record 'u callbacks =
  onCommitStart :: "'u world action"
  onRender :: "Fiber \<Rightarrow> Render \<Rightarrow> 'u world action"
  onCommitFinish :: "'u world action"

definition console_error :: "string \<Rightarrow> exn \<Rightarrow> 'u world action" where
  "console_error msg err w = (None, w \<lparr> console := console w @ [(msg, err)] \<rparr>)"

text \<open>
  Modelled from the spec: \<^verbatim>\<open>traverseFiber\<close> is imported from \<^verbatim>\<open>./fiber\<close>, which is not
  among the sources. Ascending, it is the upward walk of the spec: it visits the
  node's ancestors from the nearest and stops at the first the selector accepts.
  Descending, it visits the whole tree under a node, the node first.
\<close>

fun traverseFiber_ascending :: "Fiber \<Rightarrow> (Fiber \<Rightarrow> bool option) \<Rightarrow> Fiber option" where
  "traverseFiber_ascending (Fiber t e m a d r c s) selector =
     (case r of
        None \<Rightarrow> None
      | Some parent \<Rightarrow>
          if selector parent = Some True then Some parent
          else traverseFiber_ascending parent selector)"

fun traverseFiber_descending :: "Fiber \<Rightarrow> (Fiber \<Rightarrow> 'w action) \<Rightarrow> 'w action"
  and traverseFiber_siblings :: "Fiber list \<Rightarrow> (Fiber \<Rightarrow> 'w action) \<Rightarrow> 'w action"
where
  "traverseFiber_descending (Fiber t e m a d r c s) selector =
     seq (selector (Fiber t e m a d r c s)) (traverseFiber_siblings c selector)"
| "traverseFiber_siblings [] selector = skip"
| "traverseFiber_siblings (child # rest) selector =
     seq (traverseFiber_descending child selector) (traverseFiber_siblings rest selector)"

text \<open>\<^verbatim>\<open>allowList?.has(key)\<close> and \<^verbatim>\<open>allowList?.get(key)\<close>.\<close>

definition allowList_has :: "allowList option \<Rightarrow> jsval \<Rightarrow> bool option" where
  "allowList_has allowList key = map_option (\<lambda>al. key \<in> fst ` set al) allowList"

definition allowList_get :: "allowList option \<Rightarrow> jsval \<Rightarrow> Options option" where
  "allowList_get allowList key = (case allowList of None \<Rightarrow> None | Some al \<Rightarrow> map_of al key)"

definition handleFiber_selector :: "allowList option \<Rightarrow> Fiber \<Rightarrow> bool option" where
  "handleFiber_selector allowList node =
     (case nullish (allowList_get allowList (fiber_type node))
                   (allowList_get allowList (elementType node)) of
        None \<Rightarrow> None
      | Some options \<Rightarrow> includeChildren options)"

text \<open>The two calls of \<open>onRender\<close> that end \<open>handleFiber\<close>.\<close>

definition handleFiber_emit ::
  "'u callbacks \<Rightarrow> Fiber \<Rightarrow> bool \<Rightarrow> Render option \<Rightarrow> Render option \<Rightarrow> 'u world action"
where
  "handleFiber_emit cb fiber trig propsRender contextRender =
     seq (case propsRender of None \<Rightarrow> skip
          | Some r \<Rightarrow> onRender cb fiber (r \<lparr> trigger := trig \<rparr>))
         (case contextRender of None \<Rightarrow> skip
          | Some r \<Rightarrow> onRender cb fiber (r \<lparr> trigger := trig \<rparr>))"

definition handleFiber ::
  "externals \<Rightarrow> 'u callbacks \<Rightarrow> internals \<Rightarrow> Fiber \<Rightarrow> bool \<Rightarrow> 'u world action"
where
  "handleFiber ext cb internals fiber trig =
     eval_then (getType ext (fiber_type fiber)) (\<lambda>type.
       case type of
         None \<Rightarrow> skip
       | Some type \<Rightarrow>
           eval_then (didFiberRender ext fiber) (\<lambda>rendered.
             if \<not> rendered then skip
             else
               eval_then (getPropsRender ext fiber type) (\<lambda>propsRender.
               eval_then (getContextRender ext fiber type) (\<lambda>contextRender.
                 if propsRender = None \<and> contextRender = None then skip
                 else
                   let allowList = componentAllowList internals;
                       shouldAllow = nullish (allowList_has allowList (fiber_type fiber))
                                             (allowList_has allowList (elementType fiber))
                   in if shouldAllow = Some True
                      then
                        let parent = traverseFiber_ascending fiber (handleFiber_selector allowList)
                        in if parent = None \<and> shouldAllow \<noteq> Some True then skip
                           else handleFiber_emit cb fiber trig propsRender contextRender
                      else handleFiber_emit cb fiber trig propsRender contextRender))))"

definition handleCommitFiberRoot ::
  "externals \<Rightarrow> 'u callbacks \<Rightarrow> internals \<Rightarrow> nat \<Rightarrow> FiberRoot \<Rightarrow> 'u world action"
where
  "handleCommitFiberRoot ext cb internals rendererID fiberRoot =
     (if isPaused internals then skip
      else
        seq (onCommitStart cb)
       (seq (case memoizedUpdaters fiberRoot of
               None \<Rightarrow> skip
             | Some updaters \<Rightarrow> for_each (\<lambda>fiber. handleFiber ext cb internals fiber True) updaters)
       (seq (traverseFiber_descending (current fiberRoot)
               (\<lambda>fiber. handleFiber ext cb internals fiber False))
            (onCommitFinish cb))))"

text \<open>The handler \<open>instrument\<close> installs as the host's commit hook.\<close>

definition onCommitFiberRoot ::
  "externals \<Rightarrow> 'u callbacks \<Rightarrow> internals \<Rightarrow> nat \<Rightarrow> FiberRoot \<Rightarrow> 'u world action"
where
  "onCommitFiberRoot ext cb internals rendererID fiberRoot w =
     (case handleCommitFiberRoot ext cb internals rendererID fiberRoot w of
        (None, w') \<Rightarrow> (None, w')
      | (Some err, w') \<Rightarrow> console_error ''[React Scan] Error instrumenting: '' err w')"

section \<open>Outlines\<close>

record DOMRect =
  rect_x :: number
  rect_y :: number
  rect_width :: number
  rect_height :: number
  rect_top :: number
  rect_right :: number
  rect_bottom :: number
  rect_left :: number

record MeasurementValue =
  mv_width :: number
  mv_height :: number
  mv_pageX :: number
  mv_pageY :: number
  mv_x :: number
  mv_y :: number

text \<open>The tagged union \<open>Measurement\<close>: kind \<^verbatim>\<open>'dom'\<close> or kind \<^verbatim>\<open>'native'\<close>, with its value.\<close>

datatype Measurement = Dom DOMRect | Native MeasurementValue

text \<open>\<^verbatim>\<open>assertDom(measurement).value\<close>: throws on a measurement that is not of kind dom.\<close>

definition assertDom :: "Measurement \<Rightarrow> exn + DOMRect" where
  "assertDom measurement =
     (case measurement of
        Dom rect \<Rightarrow> Inr rect
      | Native v \<Rightarrow> Inl (Error ''dom invariant''))"

text \<open>
  The assignment \<^verbatim>\<open>measurement.value = rect\<close>, which keeps the kind. (The overlay only
  creates measurements of kind dom; on one of kind native the value read back is the
  rectangle's size and position.)
\<close>

fun set_value :: "Measurement \<Rightarrow> DOMRect \<Rightarrow> Measurement" where
  "set_value (Dom old) rect = Dom rect"
| "set_value (Native v) rect =
     Native (v \<lparr> mv_width := rect_width rect, mv_height := rect_height rect,
                 mv_x := rect_x rect, mv_y := rect_y rect \<rparr>)"

record PendingOutline =
  outline_fiber :: Fiber
  latestMeasurement :: Measurement
  renders :: "Render list"

record rgb =
  rgb_r :: number
  rgb_g :: number
  rgb_b :: number

text \<open>
  An active outline. \<open>frame\<close> and \<open>totalFrames\<close> are the frame counters (the engine
  only ever stores 0, 5 and 60 and increments). \<open>resolve\<close> is the stored completion
  callback \<^verbatim>\<open>() => { resolve(); options.onPaintFinish?.(outline) }\<close>, represented by the
  outline it captured; \<open>invoke_resolve\<close> below is what calling it does.
\<close>

record ActiveOutline =
  outline :: PendingOutline
  outline_id :: jsstring
  alpha :: number
  frame :: nat
  totalFrames :: nat
  resolve :: PendingOutline
  label_text :: "jsstring option"
  color :: rgb
  updatedAt :: number

record PaintedOutline =
  painted_alpha :: number
  painted_outline :: PendingOutline
  painted_text :: "jsstring option"

text \<open>
  The helpers of the overlay whose bodies are not part of the sources, and the values
  the platform supplies to one call: the conversion of a number to a string (template
  literals), \<^verbatim>\<open>isOutlineUnstable\<close>, \<^verbatim>\<open>genId()\<close> and \<^verbatim>\<open>Date.now()\<close>.
\<close>

record web_env =
  numberToString :: "number \<Rightarrow> jsstring"
  isOutlineUnstable :: "PendingOutline \<Rightarrow> bool"
  genId :: jsstring
  date_now :: number

definition getOutlineKey :: "(number \<Rightarrow> jsstring) \<Rightarrow> DOMRect \<Rightarrow> jsstring" where
  "getOutlineKey toStr rect =
     toStr (rect_top rect) @ lit ''-'' @ toStr (rect_left rect) @ lit ''-''
     @ toStr (rect_width rect) @ lit ''-'' @ toStr (rect_height rect)"

text \<open>
  A \<^verbatim>\<open>Map\<close>: the entries in insertion order. \<open>map_set\<close> replaces the value of a key
  that is present, in place, and appends a new key.
\<close>

fun map_set :: "'k \<Rightarrow> 'v \<Rightarrow> ('k \<times> 'v) list \<Rightarrow> ('k \<times> 'v) list" where
  "map_set k v [] = [(k, v)]"
| "map_set k v ((k', v') # rest) =
     (if k' = k then (k, v) # rest else (k', v') # map_set k v rest)"

subsection \<open>Merging pending outlines\<close>

text \<open>
  \<^verbatim>\<open>mergeOutlines\<close> appends to the render array of the first outline of a key in place
  (\<^verbatim>\<open>existingOutline.renders.push(...outline.renders)\<close>), so here the render arrays are
  objects in a store, and an outline of the list holds the reference to its array. The
  function writes no field of an outline object: an outline object that occurs twice
  in the list is the same value twice, with the same array. \<open>read_outline\<close> is the
  outline as it reads in a store.
\<close>

type_synonym array_ref = nat

type_synonym render_arrays = "array_ref \<Rightarrow> Render list"

record QueuedOutline =
  queued_fiber :: Fiber
  queued_latestMeasurement :: Measurement
  queued_renders :: array_ref

definition read_outline :: "render_arrays \<Rightarrow> QueuedOutline \<Rightarrow> PendingOutline" where
  "read_outline arrays queued =
     \<lparr> outline_fiber = queued_fiber queued,
       latestMeasurement = queued_latestMeasurement queued,
       renders = arrays (queued_renders queued) \<rparr>"

fun mergeOutlines_loop ::
  "(number \<Rightarrow> jsstring) \<Rightarrow> QueuedOutline list \<Rightarrow> (jsstring \<times> QueuedOutline) list
   \<Rightarrow> render_arrays \<Rightarrow> (exn + (jsstring \<times> QueuedOutline) list) \<times> render_arrays"
where
  "mergeOutlines_loop toStr [] mergedOutlines arrays = (Inr mergedOutlines, arrays)"
| "mergeOutlines_loop toStr (pending # rest) mergedOutlines arrays =
     (case assertDom (queued_latestMeasurement pending) of
        Inl e \<Rightarrow> (Inl e, arrays)
      | Inr rect \<Rightarrow>
          let key = getOutlineKey toStr rect
          in case map_of mergedOutlines key of
               None \<Rightarrow>
                 mergeOutlines_loop toStr rest (map_set key pending mergedOutlines) arrays
             | Some existingOutline \<Rightarrow>
                 mergeOutlines_loop toStr rest mergedOutlines
                   (arrays (queued_renders existingOutline :=
                      arrays (queued_renders existingOutline)
                      @ arrays (queued_renders pending))))"

definition mergeOutlines ::
  "(number \<Rightarrow> jsstring) \<Rightarrow> QueuedOutline list \<Rightarrow> render_arrays
   \<Rightarrow> (exn + QueuedOutline list) \<times> render_arrays"
where
  "mergeOutlines toStr outlines arrays =
     (case mergeOutlines_loop toStr outlines [] arrays of
        (Inl e, arrays') \<Rightarrow> (Inl e, arrays')
      | (Inr mergedOutlines, arrays') \<Rightarrow> (Inr (map snd mergedOutlines), arrays'))"

subsection \<open>Geometry\<close>

record CSSStyleDeclaration =
  display :: jsstring
  visibility :: jsstring
  opacity :: jsstring

text \<open>
  What the document answers at one moment; HTML elements are identified by numbers.
  \<open>performance_now\<close> is the clock, read as one value within a call of \<open>getRect\<close>.
\<close>

record window =
  getComputedStyle :: "nat \<Rightarrow> CSSStyleDeclaration"
  getBoundingClientRect :: "nat \<Rightarrow> DOMRect"
  innerHeight :: number
  innerWidth :: number
  performance_now :: number

definition DEFAULT_THROTTLE_TIME :: number where
  "DEFAULT_THROTTLE_TIME = Finite 16"

type_synonym rect_cache = "(nat \<times> DOMRect \<times> number) list"

definition getRect :: "window \<Rightarrow> rect_cache \<Rightarrow> nat \<Rightarrow> DOMRect option \<times> rect_cache" where
  "getRect win cache domNode =
     (let cached = map_of cache domNode
      in if (case cached of
               None \<Rightarrow> False
             | Some (rect, timestamp) \<Rightarrow>
                 num_greater timestamp (num_sub (performance_now win) DEFAULT_THROTTLE_TIME))
         then (map_option fst cached, cache)
         else
           let style = getComputedStyle win domNode
           in if display style = lit ''none'' \<or> visibility style = lit ''hidden''
                 \<or> opacity style = lit ''0''
              then (None, cache)
              else
                let rect = getBoundingClientRect win domNode;
                    isVisible = (num_ge (rect_top rect) (Finite 0)
                                 \<and> num_ge (rect_left rect) (Finite 0)
                                 \<and> num_le (rect_bottom rect) (innerHeight win)
                                 \<and> num_le (rect_right rect) (innerWidth win))
                in if \<not> isVisible \<or> \<not> num_truthy (rect_width rect)
                      \<or> \<not> num_truthy (rect_height rect)
                   then (None, cache)
                   else (Some rect, map_set domNode (rect, performance_now win) cache))"

definition getDomNode :: "PendingOutline \<Rightarrow> nat option" where
  "getDomNode pending = stateNode (outline_fiber pending)"

subsection \<open>The label\<close>

datatype label_env = env_dom | env_native

record component_stats =
  stat_count :: int
  stat_trigger :: bool
  stat_forget :: bool

text \<open>The code units \<^verbatim>\<open>String.prototype.trim\<close> strips: white space and line terminators.\<close>

definition is_whitespace :: "16 word \<Rightarrow> bool" where
  "is_whitespace c =
     (c \<in> set [0x9, 0xA, 0xB, 0xC, 0xD, 0x20, 0xA0, 0x1680, 0x2000, 0x2001, 0x2002, 0x2003,
               0x2004, 0x2005, 0x2006, 0x2007, 0x2008, 0x2009, 0x200A, 0x2028, 0x2029,
               0x202F, 0x205F, 0x3000, 0xFEFF])"

definition trim :: "jsstring \<Rightarrow> jsstring" where
  "trim s = rev (dropWhile is_whitespace (rev (dropWhile is_whitespace s)))"

text \<open>\<^verbatim>\<open>!name?.trim()\<close>: the name is null, or nothing is left of it once trimmed.\<close>

definition name_is_blank :: "jsstring option \<Rightarrow> bool" where
  "name_is_blank nm = (case nm of None \<Rightarrow> True | Some n \<Rightarrow> trim n = [])"

fun getLabelText_loop ::
  "Render list \<Rightarrow> (jsstring \<times> component_stats) list \<Rightarrow> (jsstring \<times> component_stats) list"
where
  "getLabelText_loop [] components = components"
| "getLabelText_loop (render # rest) components =
     (if name_is_blank (render_name render) then getLabelText_loop rest components
      else
        let nm = the (render_name render);
            old = (case map_of components nm of
                     None \<Rightarrow> \<lparr> stat_count = 0, stat_trigger = False, stat_forget = False \<rparr>
                   | Some st \<Rightarrow> st)
        in getLabelText_loop rest
             (map_set nm
                \<lparr> stat_count = stat_count old + count render,
                  stat_trigger = (stat_trigger old \<or> trigger render),
                  stat_forget = (stat_forget old \<or> forget render) \<rparr>
                components))"

text \<open>One part of the label, for one component.\<close>

definition getLabelText_part ::
  "(number \<Rightarrow> jsstring) \<Rightarrow> label_env \<Rightarrow> jsstring \<times> component_stats \<Rightarrow> jsstring"
where
  "getLabelText_part toStr env entry =
     (let nm = fst entry; st = snd entry;
          text1 = (if stat_count st > 1
                   then nm @ [0x20, 0xD7] @ toStr (Finite (of_int (stat_count st)))
                   else nm);
          text2 = (if env = env_dom \<and> stat_trigger st
                   then [0xD83D, 0xDD25, 0x20] @ text1 else text1)
      in if env = env_dom \<and> stat_forget st then text2 @ [0x20, 0x2728] else text2)"

text \<open>\<^verbatim>\<open>parts.join(' ')\<close>.\<close>

fun join_space :: "jsstring list \<Rightarrow> jsstring" where
  "join_space [] = []"
| "join_space [p] = p"
| "join_space (p # q # rest) = p @ [0x20] @ join_space (q # rest)"

definition getLabelText ::
  "(number \<Rightarrow> jsstring) \<Rightarrow> Render list \<Rightarrow> label_env \<Rightarrow> jsstring option"
where
  "getLabelText toStr rs env =
     (let components = getLabelText_loop rs [];
          sortedComponents = sort_key (\<lambda>entry. - stat_count (snd entry)) components;
          labelText = join_space (map (getLabelText_part toStr env) sortedComponents)
      in if length labelText = 0 then None
         else if length labelText > 20 then Some (take 20 labelText @ [0x2026])
         else Some labelText)"

subsection \<open>The state of the overlay\<close>

datatype paint_event =
    PaintStart PendingOutline
  | PaintFinish PendingOutline
  | LogRenders "Render list"

text \<open>What one animation tick accumulates and then draws.\<close>

record frame_acc =
  combinedPath :: "DOMRect list"
  maxStrokeAlpha :: number
  maxFillAlpha :: number
  pendingLabeledOutlines :: "PaintedOutline list"

definition empty_frame :: frame_acc where
  "empty_frame = \<lparr> combinedPath = [], maxStrokeAlpha = Finite 0, maxFillAlpha = Finite 0,
                    pendingLabeledOutlines = [] \<rparr>"

text \<open>
  The shared state: the outline buffers and options of \<^verbatim>\<open>ReactScanInternals\<close>, the
  module variables \<^verbatim>\<open>rectCache\<close> and \<^verbatim>\<open>animationFrameId\<close> (true when a tick is
  scheduled), the canvas (what the last tick drew), and the calls made so far to the
  consumer's paint callbacks and to the render log.
\<close>

record scan_state =
  scheduledOutlines :: "PendingOutline list"
  activeOutlines :: "ActiveOutline list"
  options :: Options
  rectCache :: rect_cache
  animationFrameId :: bool
  canvas :: frame_acc
  paint_events :: "paint_event list"

text \<open>\<^verbatim>\<open>array.splice(i, 1)\<close>.\<close>

definition splice1 :: "nat \<Rightarrow> 'a list \<Rightarrow> 'a list" where
  "splice1 i xs = take i xs @ drop (Suc i) xs"

subsection \<open>Re-resolving the geometry\<close>

text \<open>
  The body of \<open>recalcOutlines\<close> (the throttle around it only decides whether a call
  runs it). Both loops run from the last index down. The first has no guard against an
  index beyond the array, where the source would read a property of undefined and
  throw; the loop never reaches one.
\<close>

fun recalcOutlines_scheduled :: "window \<Rightarrow> nat \<Rightarrow> scan_state action" where
  "recalcOutlines_scheduled win 0 s = (None, s)"
| "recalcOutlines_scheduled win (Suc i) s =
     (if i < length (scheduledOutlines s)
      then
        let pending = scheduledOutlines s ! i
        in case getDomNode pending of
             None \<Rightarrow> recalcOutlines_scheduled win i s
           | Some domNode \<Rightarrow>
               (case getRect win (rectCache s) domNode of
                  (None, cache) \<Rightarrow>
                    recalcOutlines_scheduled win i
                      (s \<lparr> rectCache := cache,
                           scheduledOutlines := splice1 i (scheduledOutlines s) \<rparr>)
                | (Some rect, cache) \<Rightarrow>
                    recalcOutlines_scheduled win i
                      (s \<lparr> rectCache := cache,
                           scheduledOutlines := (scheduledOutlines s)
                             [i := pending \<lparr> latestMeasurement :=
                                     set_value (latestMeasurement pending) rect \<rparr>] \<rparr>))
      else (Some (Error ''TypeError''), s))"

fun recalcOutlines_active :: "window \<Rightarrow> nat \<Rightarrow> scan_state action" where
  "recalcOutlines_active win 0 s = (None, s)"
| "recalcOutlines_active win (Suc i) s =
     (if i < length (activeOutlines s)
      then
        let activeOutline = activeOutlines s ! i;
            pending = outline activeOutline
        in case getDomNode pending of
             None \<Rightarrow> recalcOutlines_active win i s
           | Some domNode \<Rightarrow>
               (case getRect win (rectCache s) domNode of
                  (None, cache) \<Rightarrow>
                    recalcOutlines_active win i
                      (s \<lparr> rectCache := cache,
                           activeOutlines := splice1 i (activeOutlines s) \<rparr>)
                | (Some rect, cache) \<Rightarrow>
                    recalcOutlines_active win i
                      (s \<lparr> rectCache := cache,
                           activeOutlines := (activeOutlines s)
                             [i := activeOutline \<lparr> outline := pending \<lparr> latestMeasurement :=
                                     set_value (latestMeasurement pending) rect \<rparr> \<rparr>] \<rparr>))
      else recalcOutlines_active win i s)"

definition recalcOutlines :: "window \<Rightarrow> scan_state action" where
  "recalcOutlines win s =
     seq (recalcOutlines_scheduled win (length (scheduledOutlines s)))
         (\<lambda>s'. recalcOutlines_active win (length (activeOutlines s')) s') s"

subsection \<open>Painting an outline\<close>

text \<open>The interpolation factor and the colour computed in \<open>paintOutline\<close>.\<close>

definition paintOutline_t :: "number option \<Rightarrow> nat \<Rightarrow> number" where
  "paintOutline_t maxRenders' renderCount =
     Math_min (num_div (Finite (of_nat renderCount))
                 (case maxRenders' of None \<Rightarrow> Finite 20 | Some m \<Rightarrow> m))
              (Finite 1)"

definition startColor :: rgb where
  "startColor = \<lparr> rgb_r = Finite 115, rgb_g = Finite 97, rgb_b = Finite 230 \<rparr>"

definition endColor :: rgb where
  "endColor = \<lparr> rgb_r = Finite 185, rgb_g = Finite 49, rgb_b = Finite 115 \<rparr>"

definition paintOutline_color :: "number option \<Rightarrow> nat \<Rightarrow> rgb" where
  "paintOutline_color maxRenders' renderCount =
     (let t = paintOutline_t maxRenders' renderCount
      in \<lparr> rgb_r = Math_round (num_add (rgb_r startColor)
                       (num_mul t (num_sub (rgb_r endColor) (rgb_r startColor)))),
           rgb_g = Math_round (num_add (rgb_g startColor)
                       (num_mul t (num_sub (rgb_g endColor) (rgb_g startColor)))),
           rgb_b = Math_round (num_add (rgb_b startColor)
                       (num_mul t (num_sub (rgb_b endColor) (rgb_b startColor)))) \<rparr>)"

text \<open>
  \<^verbatim>\<open>activeOutlines.find(...)\<close> by region key, as the index of the first match; the
  predicate throws on an active outline whose measurement is not of kind dom.
\<close>

fun find_active ::
  "(number \<Rightarrow> jsstring) \<Rightarrow> jsstring \<Rightarrow> ActiveOutline list \<Rightarrow> exn + nat option"
where
  "find_active toStr key [] = Inr None"
| "find_active toStr key (activeOutline # rest) =
     and_then (assertDom (latestMeasurement (outline activeOutline))) (\<lambda>rect.
       if getOutlineKey toStr rect = key then Inr (Some 0)
       else and_then (find_active toStr key rest) (\<lambda>found. Inr (map_option Suc found)))"

text \<open>
  Calling the completion callback stored in an active outline. Nothing in the sources
  calls it.
\<close>

definition invoke_resolve :: "ActiveOutline \<Rightarrow> scan_state \<Rightarrow> scan_state" where
  "invoke_resolve activeOutline s =
     (if onPaintFinish (options s)
      then s \<lparr> paint_events := paint_events s @ [PaintFinish (resolve activeOutline)] \<rparr>
      else s)"

definition paintOutline :: "web_env \<Rightarrow> PendingOutline \<Rightarrow> scan_state action" where
  "paintOutline env pending s =
     (let is_unstable = isOutlineUnstable env pending;
          totalFrames' = (if is_unstable then 60 else 5);
          alpha' = Finite (8 / 10);
          s1 = (if onPaintStart (options s)
                then s \<lparr> paint_events := paint_events s @ [PaintStart pending] \<rparr> else s);
          s2 = (if log_renders (options s)
                then s1 \<lparr> paint_events := paint_events s1 @ [LogRenders (renders pending)] \<rparr>
                else s1)
      in case assertDom (latestMeasurement pending) of
           Inl e \<Rightarrow> (Some e, s2)
         | Inr rect \<Rightarrow>
         let key = getOutlineKey (numberToString env) rect
         in case find_active (numberToString env) key (activeOutlines s2) of
           Inl e \<Rightarrow> (Some e, s2)
         | Inr existingActiveOutline \<Rightarrow>
           let renderCount = length (renders pending);
               color' = paintOutline_color (maxRenders (options s2)) renderCount;
               s3 = (case existingActiveOutline of
                       Some i \<Rightarrow>
                         let existing = activeOutlines s2 ! i;
                             merged = renders (outline existing) @ renders pending
                         in s2 \<lparr> activeOutlines := (activeOutlines s2)
                                  [i := existing
                                     \<lparr> outline := (outline existing)
                                          \<lparr> latestMeasurement := latestMeasurement pending,
                                            renders := merged \<rparr>,
                                       alpha := alpha',
                                       frame := 0,
                                       totalFrames := totalFrames',
                                       label_text := getLabelText (numberToString env) merged env_dom,
                                       color := color' \<rparr>] \<rparr>
                     | None \<Rightarrow>
                         s2 \<lparr> activeOutlines := activeOutlines s2 @
                                [\<lparr> outline = pending, outline_id = genId env, alpha = alpha',
                                   frame = 0, totalFrames = totalFrames', resolve = pending,
                                   label_text = getLabelText (numberToString env)
                                                  (renders pending) env_dom,
                                   color = color', updatedAt = date_now env \<rparr>] \<rparr>)
           in (None, s3 \<lparr> animationFrameId := True \<rparr>))"

subsection \<open>The animation tick\<close>

text \<open>
  The alpha an active outline gets in a tick, from its frame before the increment:
  \<^verbatim>\<open>alphaScalar * (1 - frame / totalFrames)\<close>.
\<close>

definition fadeOutOutline_alpha :: "web_env \<Rightarrow> ActiveOutline \<Rightarrow> number" where
  "fadeOutOutline_alpha env activeOutline =
     (let is_unstable = isOutlineUnstable env (outline activeOutline);
          alphaScalar = (if is_unstable then Finite (8 / 10) else Finite (2 / 10))
      in num_mul alphaScalar
           (num_sub (Finite 1)
              (num_div (Finite (of_nat (frame activeOutline)))
                       (Finite (of_nat (totalFrames activeOutline))))))"

text \<open>
  One iteration of the loop of \<open>fadeOutOutline\<close> on an active outline: the new alpha,
  the tick's accumulators, the increment of the frame. (The iteration also schedules a
  later re-measurement of the outline's element, which rewrites only
  \<open>latestMeasurement\<close> and is not part of the tick.)
\<close>

definition fadeOutOutline_step ::
  "web_env \<Rightarrow> ActiveOutline \<Rightarrow> frame_acc \<Rightarrow> exn + ActiveOutline \<times> frame_acc"
where
  "fadeOutOutline_step env activeOutline acc =
     and_then (assertDom (latestMeasurement (outline activeOutline))) (\<lambda>rect.
       let is_unstable = isOutlineUnstable env (outline activeOutline);
           alpha' = fadeOutOutline_alpha env activeOutline;
           acc' = acc \<lparr> maxStrokeAlpha := Math_max (maxStrokeAlpha acc) alpha',
                        maxFillAlpha := Math_max (maxFillAlpha acc)
                                          (num_mul alpha' (Finite (1 / 10))),
                        combinedPath := combinedPath acc @ [rect],
                        pendingLabeledOutlines :=
                          (if is_unstable
                           then pendingLabeledOutlines acc @
                                  [\<lparr> painted_alpha = alpha',
                                     painted_outline = outline activeOutline,
                                     painted_text = label_text activeOutline \<rparr>]
                           else pendingLabeledOutlines acc) \<rparr>
       in Inr (activeOutline \<lparr> alpha := alpha', frame := frame activeOutline + 1 \<rparr>, acc'))"

fun fadeOutOutline_loop ::
  "web_env \<Rightarrow> nat \<Rightarrow> ActiveOutline list \<Rightarrow> frame_acc
   \<Rightarrow> exn option \<times> ActiveOutline list \<times> frame_acc"
where
  "fadeOutOutline_loop env 0 outlines acc = (None, outlines, acc)"
| "fadeOutOutline_loop env (Suc i) outlines acc =
     (if i < length outlines
      then
        (case fadeOutOutline_step env (outlines ! i) acc of
           Inl e \<Rightarrow> (Some e, outlines, acc)
         | Inr (activeOutline, acc') \<Rightarrow>
             if frame activeOutline > totalFrames activeOutline
             then fadeOutOutline_loop env i (splice1 i (outlines [i := activeOutline])) acc'
             else fadeOutOutline_loop env i (outlines [i := activeOutline]) acc')
      else fadeOutOutline_loop env i outlines acc)"

definition fadeOutOutline :: "web_env \<Rightarrow> scan_state action" where
  "fadeOutOutline env s =
     (case fadeOutOutline_loop env (length (activeOutlines s)) (activeOutlines s) empty_frame of
        (Some e, outlines, acc) \<Rightarrow>
          (Some e, s \<lparr> activeOutlines := outlines, canvas := empty_frame \<rparr>)
      | (None, outlines, acc) \<Rightarrow>
          (None, s \<lparr> activeOutlines := outlines,
                     canvas := acc \<lparr> pendingLabeledOutlines :=
                                 filter (\<lambda>p. painted_text p \<noteq> None \<and> painted_text p \<noteq> Some [])
                                   (pendingLabeledOutlines acc) \<rparr>,
                     animationFrameId := (outlines \<noteq> []) \<rparr>))"

section \<open>Notions of the specification\<close>

text \<open>A value of composite type: object-like or function-like.\<close>

definition is_composite :: "jsval \<Rightarrow> bool" where
  "is_composite v = (typeof v = T_object \<or> typeof v = T_function)"

text \<open>
  A prop key survives the skip rules: its two values are not identity-equal, neither
  is an element of the host tree, and the key is not the children slot.
\<close>

definition survives_skip_rules ::
  "externals \<Rightarrow> props option \<Rightarrow> props option \<Rightarrow> jsstring \<Rightarrow> bool"
where
  "survives_skip_rules ext prevProps nextProps key =
     (\<not> Object_is (get_prop ext prevProps key) (get_prop ext nextProps key)
      \<and> \<not> isValidElement ext (get_prop ext prevProps key)
      \<and> \<not> isValidElement ext (get_prop ext nextProps key)
      \<and> key \<noteq> lit ''children'')"

text \<open>
  The Change the specification asks for on a surviving key: unstable exactly when
  both values are composite and serialize to the same text.
\<close>

definition expected_change ::
  "externals \<Rightarrow> props option \<Rightarrow> props option \<Rightarrow> jsstring \<Rightarrow> Change"
where
  "expected_change ext prevProps nextProps key =
     \<lparr> name = key, prevValue = get_prop ext prevProps key,
       nextValue = get_prop ext nextProps key,
       unstable = (is_composite (get_prop ext prevProps key)
                   \<and> is_composite (get_prop ext nextProps key)
                   \<and> fastSerialize ext (get_prop ext prevProps key)
                       = fastSerialize ext (get_prop ext nextProps key)) \<rparr>"





text \<open>An outline whose measurement is of kind dom, and the region key of such an outline.\<close>

definition is_dom_outline :: "PendingOutline \<Rightarrow> bool" where
  "is_dom_outline pending = (case latestMeasurement pending of Dom rect \<Rightarrow> True | Native v \<Rightarrow> False)"

definition region_key :: "(number \<Rightarrow> jsstring) \<Rightarrow> PendingOutline \<Rightarrow> jsstring" where
  "region_key toStr pending =
     (case latestMeasurement pending of Dom rect \<Rightarrow> getOutlineKey toStr rect | Native v \<Rightarrow> [])"

text \<open>
  The renders of all the outlines of a list that have a given region key, in the order
  of the list; and the number of renders of a list of outlines.
\<close>

definition renders_of_key :: "(number \<Rightarrow> jsstring) \<Rightarrow> jsstring \<Rightarrow> PendingOutline list \<Rightarrow> Render list" where
  "renders_of_key toStr key outlines =
     concat (map renders (filter (\<lambda>pending. region_key toStr pending = key) outlines))"

definition total_renders :: "PendingOutline list \<Rightarrow> nat" where
  "total_renders outlines = sum_list (map (\<lambda>pending. length (renders pending)) outlines)"

text \<open>
  The kind and the region key of an outline as \<open>mergeOutlines\<close> receives it, with the
  reference to its render array; and the invariant of the table it builds: its keys
  are distinct, and each entry is an outline of kind dom that sits under its own region
  key.
\<close>

definition queued_is_dom :: "QueuedOutline \<Rightarrow> bool" where
  "queued_is_dom queued =
     (case queued_latestMeasurement queued of Dom rect \<Rightarrow> True | Native v \<Rightarrow> False)"

definition queued_key :: "(number \<Rightarrow> jsstring) \<Rightarrow> QueuedOutline \<Rightarrow> jsstring" where
  "queued_key toStr queued =
     (case queued_latestMeasurement queued of
        Dom rect \<Rightarrow> getOutlineKey toStr rect | Native v \<Rightarrow> [])"

definition merged_ok :: "(number \<Rightarrow> jsstring) \<Rightarrow> (jsstring \<times> QueuedOutline) list \<Rightarrow> bool" where
  "merged_ok toStr m =
     (distinct (map fst m)
      \<and> list_all (\<lambda>entry. queued_is_dom (snd entry) \<and> queued_key toStr (snd entry) = fst entry) m)"

text \<open>What one animation tick does to an active outline it keeps.\<close>

definition faded :: "web_env \<Rightarrow> ActiveOutline \<Rightarrow> ActiveOutline" where
  "faded env activeOutline =
     activeOutline \<lparr> alpha := fadeOutOutline_alpha env activeOutline,
                     frame := frame activeOutline + 1 \<rparr>"

section \<open>Example inputs\<close>

text \<open>
  Helpers for the examples: every function-typed component can be named \<open>App\<close>, every
  node rendered, and a toy serializer that prints every function alike.
\<close>

definition example_ext :: externals where
  "example_ext = \<lparr>
     getType = (\<lambda>t. Inr (if typeof t = T_function then Some t else None)),
     getDisplayName = (\<lambda>t. Inr (Some (lit ''App''))),
     fastSerialize = (\<lambda>v. Inr (case v of JString s \<Rightarrow> s | JObject r \<Rightarrow> lit ''{}''
                              | JFunction r \<Rightarrow> lit ''fn'' | _ \<Rightarrow> lit ''prim'')),
     isValidElement = (\<lambda>v. False),
     didFiberRender = (\<lambda>f. Inr True),
     getSelfTime = (\<lambda>f. Inr (Finite 0)),
     hasMemoCache = (\<lambda>f. Inr False),
     objectPrototype = [(lit ''constructor'', JFunction 1, False),
                        (lit ''toString'', JFunction 2, False)] \<rparr>"

text \<open>The props \<^verbatim>\<open>{x: 1}\<close>, and a node that renders with them before and after.\<close>

definition example_props :: props where
  "example_props = [(lit ''x'', JNumber (Finite 1))]"

definition example_fiber :: Fiber where
  "example_fiber =
     Fiber (JFunction 10) (JFunction 10) (Some example_props)
       (Some (Fiber (JFunction 10) (JFunction 10) (Some example_props) None [] None [] None))
       [] None [] None"


text \<open>
  A node that reads one context, whose value is the same object before and after; and
  a node that reads two contexts, of which the second has a new value.
\<close>

definition context_fiber :: Fiber where
  "context_fiber =
     Fiber (JFunction 10) (JFunction 10) None
       (Some (Fiber (JFunction 10) (JFunction 10) None None
                [\<lparr> dep_context = JObject 30, memoizedValue = JObject 31 \<rparr>] None [] None))
       [\<lparr> dep_context = JObject 30, memoizedValue = JObject 31 \<rparr>] None [] None"


text \<open>A consumer that records the calls of \<open>onRender\<close>, and one whose \<open>onRender\<close> throws.\<close>

definition recording :: "(Fiber \<times> Render) list callbacks" where
  "recording = \<lparr>
     onCommitStart = skip,
     onRender = (\<lambda>f r w. (None, w \<lparr> user := user w @ [(f, r)] \<rparr>)),
     onCommitFinish = skip \<rparr>"

definition throwing :: "unit callbacks" where
  "throwing = \<lparr>
     onCommitStart = skip,
     onRender = (\<lambda>f r w. (Some (Error ''boom''), w)),
     onCommitFinish = skip \<rparr>"

text \<open>No allow-list, and an allow-list that registers one other component.\<close>

definition no_allowList :: internals where
  "no_allowList = \<lparr> isPaused = False, componentAllowList = None \<rparr>"

definition other_allowList :: internals where
  "other_allowList = \<lparr> isPaused = False,
     componentAllowList = Some [(JFunction 99,
       \<lparr> includeChildren = Some True, log_renders = False, maxRenders = None,
         onPaintStart = False, onPaintFinish = False \<rparr>)] \<rparr>"

text \<open>
  A conversion of numbers to strings for the examples, exact on the integers: the
  decimal digits, with a sign.
\<close>

fun decimal :: "nat \<Rightarrow> jsstring" where
  "decimal n = (if n < 10 then [of_nat (48 + n)] else decimal (n div 10) @ [of_nat (48 + n mod 10)])"

definition example_toString :: "number \<Rightarrow> jsstring" where
  "example_toString n =
     (case n of
        NaN \<Rightarrow> lit ''NaN''
      | NegInfinity \<Rightarrow> lit ''-Infinity''
      | PosInfinity \<Rightarrow> lit ''Infinity''
      | Finite q \<Rightarrow> (if q < 0 then lit ''-'' else []) @ decimal (nat \<lfloor>\<bar>q\<bar>\<rfloor>))"

definition example_web_env :: web_env where
  "example_web_env = \<lparr> numberToString = example_toString, isOutlineUnstable = (\<lambda>p. False),
                        genId = lit ''id'', date_now = Finite 0 \<rparr>"

text \<open>Two rectangles on the screen, and renders of a component by its name.\<close>

definition example_rect :: DOMRect where
  "example_rect = \<lparr> rect_x = Finite 10, rect_y = Finite 20, rect_width = Finite 100,
                     rect_height = Finite 50, rect_top = Finite 20, rect_right = Finite 110,
                     rect_bottom = Finite 70, rect_left = Finite 10 \<rparr>"

definition other_rect :: DOMRect where
  "other_rect = \<lparr> rect_x = Finite 10, rect_y = Finite 200, rect_width = Finite 100,
                   rect_height = Finite 50, rect_top = Finite 200, rect_right = Finite 110,
                   rect_bottom = Finite 250, rect_left = Finite 10 \<rparr>"

definition render_of :: "jsstring option \<Rightarrow> Render" where
  "render_of nm = \<lparr> render_type = Props, render_name = nm, time = Finite 0, count = 1,
                    trigger = False, forget = False, changes = Some [] \<rparr>"

text \<open>
  Pending outlines: \<open>outline_a\<close> and \<open>outline_c\<close> cover the same rectangle, \<open>outline_b\<close>
  another one; the node of \<open>host_outline\<close> has the HTML element 7 as its state node.
\<close>

definition outline_a :: PendingOutline where
  "outline_a = \<lparr> outline_fiber = example_fiber, latestMeasurement = Dom example_rect,
                  renders = [render_of (Some (lit ''A''))] \<rparr>"

definition outline_b :: PendingOutline where
  "outline_b = \<lparr> outline_fiber = example_fiber, latestMeasurement = Dom other_rect,
                  renders = [render_of (Some (lit ''B''))] \<rparr>"

definition outline_c :: PendingOutline where
  "outline_c = \<lparr> outline_fiber = example_fiber, latestMeasurement = Dom example_rect,
                  renders = [render_of (Some (lit ''C'')), render_of (Some (lit ''C''))] \<rparr>"

text \<open>
  The same outlines as \<open>mergeOutlines\<close> is given them, with the store that holds
  their render arrays; \<open>queued_native\<close> has a measurement of kind native.
\<close>

definition example_arrays :: render_arrays where
  "example_arrays =
     (\<lambda>r. if r = 11 then [render_of (Some (lit ''A''))]
          else if r = 12 then [render_of (Some (lit ''B''))]
          else if r = 13 then [render_of (Some (lit ''C'')), render_of (Some (lit ''C''))]
          else if r = 14 then [render_of (Some (lit ''N''))]
          else [])"

definition queued_a :: QueuedOutline where
  "queued_a = \<lparr> queued_fiber = example_fiber, queued_latestMeasurement = Dom example_rect,
                 queued_renders = 11 \<rparr>"

definition queued_b :: QueuedOutline where
  "queued_b = \<lparr> queued_fiber = example_fiber, queued_latestMeasurement = Dom other_rect,
                 queued_renders = 12 \<rparr>"

definition queued_c :: QueuedOutline where
  "queued_c = \<lparr> queued_fiber = example_fiber, queued_latestMeasurement = Dom example_rect,
                 queued_renders = 13 \<rparr>"

definition queued_native :: QueuedOutline where
  "queued_native =
     \<lparr> queued_fiber = example_fiber,
       queued_latestMeasurement =
         Native \<lparr> mv_width = Finite 100, mv_height = Finite 50, mv_pageX = Finite 10,
                  mv_pageY = Finite 20, mv_x = Finite 10, mv_y = Finite 20 \<rparr>,
       queued_renders = 14 \<rparr>"

definition host_outline :: PendingOutline where
  "host_outline = \<lparr> outline_fiber =
       Fiber (JFunction 10) (JFunction 10) None None [] None [] (Some 7),
     latestMeasurement = Dom example_rect,
     renders = [render_of (Some (lit ''H''))] \<rparr>"

text \<open>A window in which every element is styled \<^verbatim>\<open>display: none\<close>.\<close>

definition hidden_window :: window where
  "hidden_window = \<lparr>
     getComputedStyle = (\<lambda>n. \<lparr> display = lit ''none'', visibility = lit ''visible'',
                                opacity = lit ''1'' \<rparr>),
     getBoundingClientRect = (\<lambda>n. example_rect),
     innerHeight = Finite 600, innerWidth = Finite 800, performance_now = Finite 1000 \<rparr>"

text \<open>
  The state before anything is painted, with both paint callbacks supplied; the state
  after \<open>outline_a\<close> is painted; and the state a number of animation ticks later.
\<close>

definition initial_state :: scan_state where
  "initial_state = \<lparr> scheduledOutlines = [], activeOutlines = [],
     options = \<lparr> includeChildren = Some True, log_renders = False, maxRenders = None,
                 onPaintStart = True, onPaintFinish = True \<rparr>,
     rectCache = [], animationFrameId = False, canvas = empty_frame, paint_events = [] \<rparr>"

definition painted_state :: scan_state where
  "painted_state = snd (paintOutline example_web_env outline_a initial_state)"

primrec ticks :: "nat \<Rightarrow> scan_state \<Rightarrow> scan_state" where
  "ticks 0 s = s"
| "ticks (Suc n) s = snd (fadeOutOutline example_web_env (ticks n s))"

text \<open>An active outline at a given frame, and states that hold such outlines.\<close>

definition active_at :: "PendingOutline \<Rightarrow> nat \<Rightarrow> nat \<Rightarrow> ActiveOutline" where
  "active_at pending fr tf =
     \<lparr> outline = pending, outline_id = lit ''id'', alpha = Finite (8 / 10), frame = fr,
       totalFrames = tf, resolve = pending, label_text = None,
       color = startColor, updatedAt = Finite 0 \<rparr>"

definition two_outlines_state :: scan_state where
  "two_outlines_state =
     initial_state \<lparr> activeOutlines := [active_at outline_a 5 5, active_at outline_b 0 60] \<rparr>"

definition host_state :: scan_state where
  "host_state = initial_state \<lparr> activeOutlines := [active_at host_outline 0 5] \<rparr>"

text \<open>Renders for a label: two of them have no name to show.\<close>

definition label_renders :: "Render list" where
  "label_renders =
     [render_of (Some (lit ''Counter'')), render_of None, render_of (Some (lit ''   '')),
      render_of (Some (lit ''Counter'')), render_of (Some (lit ''VeryLongComponentNameHere''))]"

section \<open>Basic facts\<close>

lemma and_then_Inr:
  "and_then m f = Inr y \<Longrightarrow> \<exists>v. m = Inr v \<and> f v = Inr y"
  by (cases m) (simp_all add: and_then_def)

lemma traverseFiber_descending_unfold:
  "traverseFiber_descending f sel = seq (sel f) (traverseFiber_siblings (children f) sel)"
  by (cases f) simp

lemma is_composite_unstableTypes:
  "is_composite v = (typeof v \<in> set unstableTypes)"
  by (auto simp: is_composite_def unstableTypes_def)


section \<open>Evaluation of the examples\<close>

lemma getPropsRender_example:
  "getPropsRender example_ext example_fiber (JFunction 10) =
     Inr (Some \<lparr> render_type = Props, render_name = Some (lit ''App''), time = Finite 0,
                  count = 1, trigger = False, forget = False, changes = Some [] \<rparr>)"
  by code_simp

lemma getContextRender_example:
  "getContextRender example_ext example_fiber (JFunction 10) = Inr None"
  by code_simp

lemma getContextRender_context_example:
  "getContextRender example_ext context_fiber (JFunction 10) =
     Inr (Some \<lparr> render_type = Context, render_name = Some (lit ''App''), time = Finite 0,
       count = 1, trigger = False, forget = False, changes = Some [] \<rparr>)"
  by code_simp

lemma example_fiber_sel:
  "fiber_type example_fiber = JFunction 10" "elementType example_fiber = JFunction 10"
  "children example_fiber = []" "fiber_return example_fiber = None"
  "memoizedProps example_fiber = Some [(lit ''x'', JNumber (Finite 1))]"
  "alternate example_fiber
     = Some (Fiber (JFunction 10) (JFunction 10) (Some example_props) None [] None [] None)"
  by (simp_all add: example_fiber_def example_props_def)

lemma example_ext_sel:
  "getType example_ext (JFunction 10) = Inr (Some (JFunction 10))"
  "didFiberRender example_ext f = Inr True"
  "getDisplayName example_ext t = Inr (Some (lit ''App''))"
  "getSelfTime example_ext f = Inr (Finite 0)"
  "hasMemoCache example_ext f = Inr False"
  by (simp_all add: example_ext_def)

lemma example_fiber_classified:
  "alternate example_fiber
     = Some (Fiber (JFunction 10) (JFunction 10) (Some example_props) None [] None [] None)"
  "memoizedProps (Fiber (JFunction 10) (JFunction 10) (Some example_props) None [] None [] None)
     = Some [(lit ''x'', JNumber (Finite 1))]"
  "memoizedProps example_fiber = Some [(lit ''x'', JNumber (Finite 1))]"
  "getType example_ext (fiber_type example_fiber) = Inr (Some (JFunction 10))"
  "didFiberRender example_ext example_fiber = Inr True"
  "getDisplayName example_ext (JFunction 10) = Inr (Some (lit ''App''))"
  "getSelfTime example_ext example_fiber = Inr (Finite 0)"
  "hasMemoCache example_ext example_fiber = Inr False"
  by (simp_all add: example_fiber_def example_props_def example_ext_def)

lemma no_allowList_sel:
  "isPaused no_allowList = False" "componentAllowList no_allowList = None"
  by (simp_all add: no_allowList_def)

lemma throwing_sel:
  "onCommitStart throwing = skip" "onCommitFinish throwing = skip"
  "onRender throwing f r w = (Some (Error ''boom''), w)"
  by (simp_all add: throwing_def)

lemma recording_sel:
  "onRender recording f r w = (None, w \<lparr> user := user w @ [(f, r)] \<rparr>)"
  by (simp add: recording_def)

lemma handleFiber_classified:
  assumes "getType ext (fiber_type fiber) = Inr (Some type)"
    and "didFiberRender ext fiber = Inr True"
    and "getPropsRender ext fiber type = Inr (Some propsRender)"
    and "getContextRender ext fiber type = Inr contextRender"
  shows "handleFiber ext cb internals fiber trig
           = handleFiber_emit cb fiber trig (Some propsRender) contextRender"
  using assms by (auto simp: handleFiber_def eval_then_def Let_def fun_eq_iff)

lemma handleFiber_example:
  "handleFiber example_ext cb internals example_fiber trig w
     = onRender cb example_fiber
         \<lparr> render_type = Props, render_name = Some (lit ''App''), time = Finite 0, count = 1,
           trigger = trig, forget = False, changes = Some [] \<rparr> w"
proof -
  have "handleFiber example_ext cb internals example_fiber trig
      = handleFiber_emit cb example_fiber trig
          (Some \<lparr> render_type = Props, render_name = Some (lit ''App''), time = Finite 0,
                  count = 1, trigger = False, forget = False, changes = Some [] \<rparr>) None"
    by (rule handleFiber_classified [where type = "JFunction 10"])
       (simp_all add: example_fiber_sel example_ext_sel getPropsRender_example
          getContextRender_example)
  then show ?thesis
    by (simp add: handleFiber_emit_def seq_def skip_def split: prod.splits option.splits)
qed

lemma handleCommitFiberRoot_throwing_example:
  "handleCommitFiberRoot example_ext throwing no_allowList 0
       \<lparr> memoizedUpdaters = None, current = example_fiber \<rparr> \<lparr> user = (), console = [] \<rparr>
     = (Some (Error ''boom''), \<lparr> user = (), console = [] \<rparr>)"
  by (simp add: handleCommitFiberRoot_def traverseFiber_descending_unfold example_fiber_sel
      handleFiber_example seq_def skip_def throwing_sel no_allowList_sel)

section \<open>The props pass\<close>

lemma getPropsRender_loop_changes:
  "getPropsRender_loop ext pp np keys chs = Inr out \<Longrightarrow>
   out = chs @ map (expected_change ext pp np) (filter (survives_skip_rules ext pp np) keys)"
proof (induction keys arbitrary: chs)
  case Nil
  then show ?case by simp
next
  case (Cons k keys)
  show ?case
  proof (cases "survives_skip_rules ext pp np k")
    case False
    with Cons.prems have "getPropsRender_loop ext pp np keys chs = Inr out"
      by (auto simp: survives_skip_rules_def Let_def)
    from Cons.IH [OF this] False show ?thesis by simp
  next
    case True
    show ?thesis
    proof (cases "fastSerialize ext (get_prop ext pp k)")
      case (Inl e)
      with Cons.prems True show ?thesis
        by (simp add: survives_skip_rules_def Let_def and_then_def)
    next
      case ps: (Inr ps)
      show ?thesis
      proof (cases "fastSerialize ext (get_prop ext np k)")
        case (Inl e)
        with Cons.prems True ps show ?thesis
          by (simp add: survives_skip_rules_def Let_def and_then_def)
      next
        case ns: (Inr ns)
        have "getPropsRender_loop ext pp np keys (chs @ [expected_change ext pp np k]) = Inr out"
          using Cons.prems True ps ns
          by (auto simp: survives_skip_rules_def Let_def and_then_def expected_change_def
              is_composite_unstableTypes split: if_splits)
        from Cons.IH [OF this] True show ?thesis by simp
      qed
    qed
  qed
qed

lemma getPropsRender_changes:
  assumes "getPropsRender ext fiber type = Inr (Some r)"
    and "prevProps = (case alternate fiber of None \<Rightarrow> None | Some a \<Rightarrow> memoizedProps a)"
    and "nextProps = memoizedProps fiber"
  shows "changes r = Some (map (expected_change ext prevProps nextProps)
           (filter (survives_skip_rules ext prevProps nextProps)
              (for_in_keys ext prevProps nextProps)))"
proof -
  from assms(1) obtain chs nm t fg where
    loop: "getPropsRender_loop ext prevProps nextProps (for_in_keys ext prevProps nextProps) []
             = Inr chs"
    and r: "r = \<lparr> render_type = Props, render_name = nm, time = t, count = 1,
                  trigger = False, forget = fg, changes = Some chs \<rparr>"
    unfolding getPropsRender_def Let_def assms(2,3)[symmetric]
    by (auto dest!: and_then_Inr)
  from getPropsRender_loop_changes [OF loop] r show ?thesis by simp
qed



text \<open>The props pass records no Change for a pair of identity-equal values.\<close>

lemma getPropsRender_never_identical:
  assumes "getPropsRender ext fiber type = Inr (Some r)"
    and "changes r = Some chs" and "c \<in> set chs"
  shows "\<not> Object_is (prevValue c) (nextValue c)"
  using getPropsRender_changes [OF assms(1) refl refl] assms(2,3)
  by (auto simp: expected_change_def survives_skip_rules_def)





lemma getPropsRender_loop_same: "getPropsRender_loop ext pp pp keys chs = Inr chs"
  by (induction keys) (simp_all add: Object_is_def Let_def)

section \<open>No Change between identity-equal values\<close>










section \<open>Props that did not change\<close>

text \<open>
  C2, as the code has it. A node renders with the props \<^verbatim>\<open>{x: 1}\<close> before and after.
  The props pass finds zero Changes, and it still yields a Render of kind props, with
  an empty list of changes: when the node has a type that can be named, did render and
  no allow-list is configured, \<open>handleFiber\<close> passes that Render to \<open>onRender\<close> (and
  after it the Render of the context pass, if there is one).
\<close>

theorem handleFiber_same_props_emits:
  assumes "alternate fiber = Some alt"
    and "memoizedProps alt = Some [(lit ''x'', JNumber (Finite 1))]"
    and "memoizedProps fiber = Some [(lit ''x'', JNumber (Finite 1))]"
    and "getType ext (fiber_type fiber) = Inr (Some type)"
    and "didFiberRender ext fiber = Inr True"
    and "getDisplayName ext type = Inr nm"
    and "getSelfTime ext fiber = Inr t"
    and "hasMemoCache ext fiber = Inr fg"
    and "getContextRender ext fiber type = Inr contextRender"
    and "componentAllowList internals = None"
  shows "getPropsRender ext fiber type
           = Inr (Some \<lparr> render_type = Props, render_name = nm, time = t, count = 1,
                          trigger = False, forget = fg, changes = Some [] \<rparr>)
    \<and> handleFiber ext cb internals fiber trig
        = seq (onRender cb fiber \<lparr> render_type = Props, render_name = nm, time = t, count = 1,
                                   trigger = trig, forget = fg, changes = Some [] \<rparr>)
              (case contextRender of None \<Rightarrow> skip
               | Some r \<Rightarrow> onRender cb fiber (r \<lparr> trigger := trig \<rparr>))"
proof -
  have pr: "getPropsRender ext fiber type
           = Inr (Some \<lparr> render_type = Props, render_name = nm, time = t, count = 1,
                          trigger = False, forget = fg, changes = Some [] \<rparr>)"
    using assms(1-3,6-8)
    by (simp add: getPropsRender_def Let_def getPropsRender_loop_same and_then_def)
  from handleFiber_classified [OF assms(4,5) pr assms(9)] pr show ?thesis
    by (simp add: handleFiber_emit_def)
qed

theorem handleFiber_same_props_emits_witness:
  "handleFiber example_ext recording no_allowList example_fiber True
       \<lparr> user = [], console = [] \<rparr>
     = (None, \<lparr> user = [(example_fiber,
                   \<lparr> render_type = Props, render_name = Some (lit ''App''), time = Finite 0,
                     count = 1, trigger = True, forget = False, changes = Some [] \<rparr>)],
                console = [] \<rparr>)"
  using handleFiber_same_props_emits [OF example_fiber_classified getContextRender_example
      no_allowList_sel(2), of recording True]
  by (simp add: seq_def skip_def recording_sel)

text \<open>
  C2, as the specification has it, fails: for the node of the example, with props
  \<^verbatim>\<open>{x: 1}\<close> before and after, a Render of kind props reaches \<open>onRender\<close>.
\<close>

theorem handleFiber_same_props_counterexample:
  "memoizedProps example_fiber = Some [(lit ''x'', JNumber (Finite 1))]
   \<and> map_option memoizedProps (alternate example_fiber)
       = Some (Some [(lit ''x'', JNumber (Finite 1))])
   \<and> map (\<lambda>(f, r). (f = example_fiber, render_type r, changes r))
        (user (snd (handleFiber example_ext recording no_allowList example_fiber False
                      \<lparr> user = [], console = [] \<rparr>)))
     = [(True, Props, Some [])]"
  by (simp add: example_fiber_sel example_props_def handleFiber_example recording_sel)

section \<open>The allow-list\<close>

text \<open>
  C4. With an allow-list configured, a node is to be passed to \<open>onRender\<close> only if its
  type is registered or an ancestor is registered with \<open>includeChildren\<close>. In the code
  the walk to the ancestors runs only for a node that is registered itself, and its
  result is then discarded: what \<open>handleFiber\<close> does is the same with any allow-list as
  with none.
\<close>

theorem handleFiber_allowList_ignored:
  "handleFiber ext cb internals fiber trig
     = handleFiber ext cb (internals \<lparr> componentAllowList := None \<rparr>) fiber trig"
  by (auto simp: handleFiber_def eval_then_def Let_def fun_eq_iff nullish_def allowList_has_def
      split: sum.splits option.splits)

theorem handleFiber_allowList_ignored_witness:
  "map fst (the (componentAllowList other_allowList)) = [JFunction 99]
   \<and> fiber_type example_fiber = JFunction 10 \<and> elementType example_fiber = JFunction 10
   \<and> fiber_return example_fiber = None
   \<and> handleFiber example_ext recording other_allowList example_fiber False
        \<lparr> user = [], console = [] \<rparr>
     = (None, \<lparr> user = [(example_fiber,
                   \<lparr> render_type = Props, render_name = Some (lit ''App''), time = Finite 0,
                     count = 1, trigger = False, forget = False, changes = Some [] \<rparr>)],
                console = [] \<rparr>)"
  using handleFiber_allowList_ignored [of example_ext recording other_allowList example_fiber False]
  by (simp add: other_allowList_def example_fiber_sel handleFiber_example recording_sel)

section \<open>The props pass marks unstable values\<close>




section \<open>The commit handler never throws\<close>

text \<open>
  C5. Whatever is thrown during the walk of a commit (by the classification of a node,
  by a diff pass or by a callback of the consumer), the installed handler returns
  normally: it never throws. The state is the one the walk left, with one more line on
  the console holding the exception when the walk threw.
\<close>

theorem onCommitFiberRoot_never_raises:
  "fst (onCommitFiberRoot ext cb internals rendererID fiberRoot w) = None
   \<and> user (snd (onCommitFiberRoot ext cb internals rendererID fiberRoot w))
       = user (snd (handleCommitFiberRoot ext cb internals rendererID fiberRoot w))
   \<and> console (snd (onCommitFiberRoot ext cb internals rendererID fiberRoot w))
       = console (snd (handleCommitFiberRoot ext cb internals rendererID fiberRoot w))
         @ (case fst (handleCommitFiberRoot ext cb internals rendererID fiberRoot w) of
              None \<Rightarrow> []
            | Some err \<Rightarrow> [(''[React Scan] Error instrumenting: '', err)])"
  by (cases "handleCommitFiberRoot ext cb internals rendererID fiberRoot w")
     (simp add: onCommitFiberRoot_def console_error_def split: option.splits)

theorem onCommitFiberRoot_never_raises_witness:
  "fst (onCommitFiberRoot example_ext throwing no_allowList 0
          \<lparr> memoizedUpdaters = None, current = example_fiber \<rparr>
          \<lparr> user = (), console = [] \<rparr>) = None
   \<and> console (snd (onCommitFiberRoot example_ext throwing no_allowList 0
          \<lparr> memoizedUpdaters = None, current = example_fiber \<rparr>
          \<lparr> user = (), console = [] \<rparr>))
       = [(''[React Scan] Error instrumenting: '', Error ''boom'')]"
  using onCommitFiberRoot_never_raises [of example_ext throwing no_allowList 0
          "\<lparr> memoizedUpdaters = None, current = example_fiber \<rparr>"
          "\<lparr> user = (), console = [] \<rparr>"]
  by (simp add: handleCommitFiberRoot_throwing_example)

section \<open>Merging outlines by region key\<close>

lemma map_of_map_set: "map_of (map_set k v m) = (map_of m)(k \<mapsto> v)"
  by (induction m) (auto simp: fun_eq_iff)

lemma fst_set_map_set: "fst ` set (map_set k v m) = insert k (fst ` set m)"
proof (induction m)
  case Nil
  then show ?case by simp
next
  case (Cons p m)
  then show ?case by (cases p) (simp add: insert_commute)
qed

lemma distinct_map_set: "distinct (map fst m) \<Longrightarrow> distinct (map fst (map_set k v m))"
proof (induction m)
  case Nil
  then show ?case by simp
next
  case (Cons p m)
  obtain k' v' where p: "p = (k', v')" by (cases p)
  show ?case
  proof (cases "k' = k")
    case True
    with Cons.prems p show ?thesis by simp
  next
    case False
    with Cons p show ?thesis by (simp add: fst_set_map_set)
  qed
qed

lemma snd_set_map_set:
  "(k', v') \<in> set (map_set k v m) \<Longrightarrow> (k', v') = (k, v) \<or> (k', v') \<in> set m"
  by (induction m) (auto split: if_splits)

lemma map_set_new: "map_of m k = None \<Longrightarrow> map_set k v m = m @ [(k, v)]"
  by (induction m) (auto split: if_splits)

lemma merged_ok_map_set:
  "merged_ok toStr m \<Longrightarrow> queued_is_dom v \<Longrightarrow> queued_key toStr v = k \<Longrightarrow>
   merged_ok toStr (map_set k v m)"
  unfolding merged_ok_def
  by (auto simp: distinct_map_set list_all_iff dest: snd_set_map_set)

lemma read_outline_dom: "is_dom_outline (read_outline arrays q) = queued_is_dom q"
  by (simp add: read_outline_def is_dom_outline_def queued_is_dom_def)

lemma read_outline_key: "region_key toStr (read_outline arrays q) = queued_key toStr q"
  by (simp add: read_outline_def region_key_def queued_key_def)

lemma read_outline_renders: "renders (read_outline arrays q) = arrays (queued_renders q)"
  by (simp add: read_outline_def)

lemma read_outline_frame:
  "r \<notin> queued_renders ` set qs \<Longrightarrow>
   map (read_outline (arrays(r := v))) qs = map (read_outline arrays) qs"
  by (induction qs) (auto simp: read_outline_def)

lemma renders_of_key_Cons:
  "renders_of_key toStr k (read_outline arrays q # ps)
     = (if queued_key toStr q = k then arrays (queued_renders q) else [])
       @ renders_of_key toStr k ps"
  by (simp add: renders_of_key_def read_outline_key read_outline_renders)

lemma total_renders_Cons:
  "total_renders (read_outline arrays q # ps)
     = length (arrays (queued_renders q)) + total_renders ps"
  by (simp add: total_renders_def read_outline_renders)

lemma total_renders_append:
  "total_renders (ps @ [read_outline arrays q])
     = total_renders ps + length (arrays (queued_renders q))"
  by (simp add: total_renders_def read_outline_renders)

lemma total_renders_push:
  "distinct (map queued_renders qs) \<Longrightarrow> e \<in> set qs \<Longrightarrow>
   total_renders (map (read_outline
       (arrays(queued_renders e := arrays (queued_renders e) @ rs))) qs)
     = total_renders (map (read_outline arrays) qs) + length rs"
proof (induction qs)
  case Nil
  then show ?case by simp
next
  case (Cons q qs)
  show ?case
  proof (cases "q = e")
    case True
    with Cons.prems have "queued_renders e \<notin> queued_renders ` set qs" by simp
    note f = read_outline_frame [OF this, of arrays "arrays (queued_renders e) @ rs"]
    show ?thesis unfolding True list.map total_renders_Cons f by simp
  next
    case False
    with Cons.prems have e: "e \<in> set qs" and d: "distinct (map queued_renders qs)"
      and "queued_renders q \<notin> queued_renders ` set qs" by auto
    then have "queued_renders q \<noteq> queued_renders e" by auto
    then show ?thesis unfolding list.map total_renders_Cons Cons.IH [OF d e] by simp
  qed
qed

lemma distinct_arrays_same:
  assumes "distinct (map queued_renders qs)" and "x \<in> set qs" and "e \<in> set qs"
    and "queued_renders x = queued_renders e"
  shows "x = e"
proof -
  from assms(1) have "inj_on queued_renders (set qs)" by (simp add: distinct_map)
  with assms(2-4) show ?thesis by (auto simp: inj_on_def)
qed

lemma assertDom_dom:
  "queued_is_dom pending \<Longrightarrow>
   \<exists>rect. assertDom (queued_latestMeasurement pending) = Inr rect
          \<and> getOutlineKey toStr rect = queued_key toStr pending"
  by (cases "queued_latestMeasurement pending")
     (simp_all add: queued_is_dom_def assertDom_def queued_key_def)

lemma mergeOutlines_loop_step:
  assumes "queued_is_dom pending"
  shows "mergeOutlines_loop toStr (pending # rest) m arrays =
     (case map_of m (queued_key toStr pending) of
        None \<Rightarrow> mergeOutlines_loop toStr rest (map_set (queued_key toStr pending) pending m) arrays
      | Some existing \<Rightarrow>
          mergeOutlines_loop toStr rest m
            (arrays (queued_renders existing :=
               arrays (queued_renders existing) @ arrays (queued_renders pending))))"
proof -
  from assertDom_dom [OF assms, of toStr] obtain rect where
    "assertDom (queued_latestMeasurement pending) = Inr rect"
    "getOutlineKey toStr rect = queued_key toStr pending" by blast
  then show ?thesis by (simp add: Let_def)
qed

text \<open>
  The loop, from any table that satisfies the invariant, when the arrays of the table
  and of the outlines still to come are pairwise distinct.
\<close>

lemma mergeOutlines_loop_correct:
  assumes "list_all queued_is_dom rest" and "merged_ok toStr m"
    and "distinct (map queued_renders (map snd m @ rest))"
  shows "\<exists>m' arrays'. mergeOutlines_loop toStr rest m arrays = (Inr m', arrays')
     \<and> merged_ok toStr m'
     \<and> (\<forall>k. map_option (\<lambda>q. arrays' (queued_renders q)) (map_of m' k)
           = (case map_of m k of
                Some e \<Rightarrow> Some (arrays (queued_renders e)
                                 @ renders_of_key toStr k (map (read_outline arrays) rest))
              | None \<Rightarrow> if k \<in> queued_key toStr ` set rest
                         then Some (renders_of_key toStr k (map (read_outline arrays) rest))
                         else None))
     \<and> total_renders (map (read_outline arrays') (map snd m'))
         = total_renders (map (read_outline arrays) (map snd m))
           + total_renders (map (read_outline arrays) rest)"
  using assms
proof (induction rest arbitrary: m arrays)
  case Nil
  then show ?case
    by (auto simp: renders_of_key_def total_renders_def split: option.splits)
next
  case (Cons pending rest)
  let ?k = "queued_key toStr pending"
  from Cons.prems have dom: "queued_is_dom pending" and rest: "list_all queued_is_dom rest"
    by simp_all
  note step = mergeOutlines_loop_step [OF dom, of toStr rest m arrays]
  show ?case
  proof (cases "map_of m ?k")
    case None
    let ?m1 = "map_set ?k pending m"
    have m1: "?m1 = m @ [(?k, pending)]" by (rule map_set_new [OF None])
    have ok1: "merged_ok toStr ?m1"
      by (rule merged_ok_map_set [OF Cons.prems(2) dom refl])
    have d1: "distinct (map queued_renders (map snd ?m1 @ rest))"
      using Cons.prems(3) unfolding m1 by simp
    from Cons.IH [OF rest ok1 d1, of arrays] obtain m' arrays' where
      run: "mergeOutlines_loop toStr rest ?m1 arrays = (Inr m', arrays')"
      and ok': "merged_ok toStr m'"
      and rs: "\<And>k. map_option (\<lambda>q. arrays' (queued_renders q)) (map_of m' k)
           = (case map_of ?m1 k of
                Some e \<Rightarrow> Some (arrays (queued_renders e)
                                 @ renders_of_key toStr k (map (read_outline arrays) rest))
              | None \<Rightarrow> if k \<in> queued_key toStr ` set rest
                         then Some (renders_of_key toStr k (map (read_outline arrays) rest))
                         else None)"
      and tot: "total_renders (map (read_outline arrays') (map snd m'))
         = total_renders (map (read_outline arrays) (map snd ?m1))
           + total_renders (map (read_outline arrays) rest)"
      by blast
    have rs': "map_option (\<lambda>q. arrays' (queued_renders q)) (map_of m' k)
           = (case map_of m k of
                Some e \<Rightarrow> Some (arrays (queued_renders e)
                       @ renders_of_key toStr k (map (read_outline arrays) (pending # rest)))
              | None \<Rightarrow> if k \<in> queued_key toStr ` set (pending # rest)
                  then Some (renders_of_key toStr k (map (read_outline arrays) (pending # rest)))
                  else None)" for k
    proof (cases "k = ?k")
      case True
      with None rs [of k] show ?thesis
        by (simp add: map_of_map_set renders_of_key_Cons)
    next
      case False
      with rs [of k] show ?thesis
        by (auto simp: map_of_map_set renders_of_key_Cons split: option.splits)
    qed
    have tot': "total_renders (map (read_outline arrays') (map snd m'))
         = total_renders (map (read_outline arrays) (map snd m))
           + total_renders (map (read_outline arrays) (pending # rest))"
      using tot unfolding m1 by (simp add: total_renders_append total_renders_Cons)
    from step None run have
      "mergeOutlines_loop toStr (pending # rest) m arrays = (Inr m', arrays')" by simp
    with ok' rs' tot' show ?thesis by blast
  next
    case (Some existing)
    let ?re = "queued_renders existing"
    let ?arrays1 = "arrays(?re := arrays ?re @ arrays (queued_renders pending))"
    from Some have mem: "(?k, existing) \<in> set m" by (rule map_of_SomeD)
    then have ex_in: "existing \<in> set (map snd m)" by force
    from Cons.prems(3) have dm: "distinct (map queued_renders (map snd m))"
      and d1: "distinct (map queued_renders (map snd m @ rest))"
      by simp_all
    from ex_in have "?re \<in> set (map queued_renders (map snd m))"
      unfolding set_map by (rule imageI)
    moreover from Cons.prems(3)
    have "set (map queued_renders (map snd m)) \<inter> set (map queued_renders (pending # rest)) = {}"
      by (simp only: map_append distinct_append)
    ultimately have fresh: "?re \<notin> queued_renders ` set (pending # rest)"
      unfolding set_map by blast
    from fresh have fresh_rest: "?re \<notin> queued_renders ` set rest"
      and ne: "queued_renders pending \<noteq> ?re" by auto
    from Cons.IH [OF rest Cons.prems(2) d1, of ?arrays1] obtain m' arrays' where
      run: "mergeOutlines_loop toStr rest m ?arrays1 = (Inr m', arrays')"
      and ok': "merged_ok toStr m'"
      and rs: "\<And>k. map_option (\<lambda>q. arrays' (queued_renders q)) (map_of m' k)
           = (case map_of m k of
                Some e \<Rightarrow> Some (?arrays1 (queued_renders e)
                                 @ renders_of_key toStr k (map (read_outline ?arrays1) rest))
              | None \<Rightarrow> if k \<in> queued_key toStr ` set rest
                         then Some (renders_of_key toStr k (map (read_outline ?arrays1) rest))
                         else None)"
      and tot: "total_renders (map (read_outline arrays') (map snd m'))
         = total_renders (map (read_outline ?arrays1) (map snd m))
           + total_renders (map (read_outline ?arrays1) rest)"
      by blast
    have frame: "map (read_outline ?arrays1) rest = map (read_outline arrays) rest"
      by (rule read_outline_frame [OF fresh_rest])
    have rs': "map_option (\<lambda>q. arrays' (queued_renders q)) (map_of m' k)
           = (case map_of m k of
                Some e \<Rightarrow> Some (arrays (queued_renders e)
                       @ renders_of_key toStr k (map (read_outline arrays) (pending # rest)))
              | None \<Rightarrow> if k \<in> queued_key toStr ` set (pending # rest)
                  then Some (renders_of_key toStr k (map (read_outline arrays) (pending # rest)))
                  else None)" for k
    proof (cases "map_of m k")
      case None
      with Some have "k \<noteq> ?k" by auto
      with None rs [of k] show ?thesis
        by (auto simp: frame renders_of_key_Cons)
    next
      case (Some x)
      note x = this
      show ?thesis
      proof (cases "k = ?k")
        case True
        with x \<open>map_of m ?k = Some existing\<close> have "x = existing" by simp
        with x True rs [of k] show ?thesis
          by (simp add: frame renders_of_key_Cons)
      next
        case False
        from x have xm: "(k, x) \<in> set m" by (rule map_of_SomeD)
        then have x_in: "x \<in> set (map snd m)" by force
        from xm mem Cons.prems(2) have "queued_key toStr x = k" "queued_key toStr existing = ?k"
          by (auto simp: merged_ok_def list_all_iff)
        with False have "x \<noteq> existing" by auto
        with distinct_arrays_same [OF dm x_in ex_in] have "queued_renders x \<noteq> ?re" by blast
        with x False rs [of k] show ?thesis
          by (simp add: frame renders_of_key_Cons)
      qed
    qed
    have tot1: "total_renders (map (read_outline ?arrays1) (map snd m))
        = total_renders (map (read_outline arrays) (map snd m))
          + length (arrays (queued_renders pending))"
      by (rule total_renders_push [OF dm ex_in])
    have tot': "total_renders (map (read_outline arrays') (map snd m'))
         = total_renders (map (read_outline arrays) (map snd m))
           + total_renders (map (read_outline arrays) (pending # rest))"
      using tot unfolding tot1 frame by (simp add: total_renders_Cons)
    from step Some run have
      "mergeOutlines_loop toStr (pending # rest) m arrays = (Inr m', arrays')" by simp
    with ok' rs' tot' show ?thesis by blast
  qed
qed

text \<open>
  C6, as the code has it. Take a list of outlines whose measurements are all of kind
  dom and whose render arrays are pairwise distinct objects (so that no outline object
  occurs twice in it). Then \<open>mergeOutlines\<close> returns; the outlines it returns have
  distinct region keys, which are the region keys of the input; after the call, the
  renders of each are the renders that all the input outlines of its region key had
  before the call, concatenated in input order; and no render is lost or duplicated:
  the output holds as many renders as the input held.
\<close>

theorem mergeOutlines_merges_by_key:
  assumes "list_all is_dom_outline (map (read_outline arrays) outlines)"
    and "distinct (map queued_renders outlines)"
  shows "\<exists>merged arrays'. mergeOutlines toStr outlines arrays = (Inr merged, arrays')
     \<and> distinct (map (region_key toStr) (map (read_outline arrays') merged))
     \<and> set (map (region_key toStr) (map (read_outline arrays') merged))
         = set (map (region_key toStr) (map (read_outline arrays) outlines))
     \<and> list_all (\<lambda>pending. renders pending
                     = renders_of_key toStr (region_key toStr pending)
                         (map (read_outline arrays) outlines))
         (map (read_outline arrays') merged)
     \<and> total_renders (map (read_outline arrays') merged)
         = total_renders (map (read_outline arrays) outlines)"
proof -
  have ok0: "merged_ok toStr []" by (simp add: merged_ok_def)
  from assms(1) have dom: "list_all queued_is_dom outlines"
    by (simp add: list_all_iff read_outline_dom)
  from assms(2) have d0: "distinct (map queued_renders (map snd [] @ outlines))" by simp
  from mergeOutlines_loop_correct [OF dom ok0 d0, of arrays] obtain m' arrays' where
    run: "mergeOutlines_loop toStr outlines [] arrays = (Inr m', arrays')"
    and ok': "merged_ok toStr m'"
    and rs: "\<And>k. map_option (\<lambda>q. arrays' (queued_renders q)) (map_of m' k)
           = (if k \<in> queued_key toStr ` set outlines
              then Some (renders_of_key toStr k (map (read_outline arrays) outlines)) else None)"
    and tot: "total_renders (map (read_outline arrays') (map snd m'))
           = total_renders (map (read_outline arrays) outlines)"
    by (auto simp: total_renders_def)
  have keys: "map (region_key toStr) (map (read_outline arrays') (map snd m')) = map fst m'"
    using ok' by (auto simp: merged_ok_def list_all_iff read_outline_key)
  have keys_in: "map (region_key toStr) (map (read_outline arrays) outlines)
      = map (queued_key toStr) outlines"
    by (simp add: read_outline_key)
  have d: "distinct (map fst m')" using ok' by (simp add: merged_ok_def)
  have dom_eq: "fst ` set m' = queued_key toStr ` set outlines"
  proof -
    have "k \<in> fst ` set m' \<longleftrightarrow> k \<in> queued_key toStr ` set outlines" for k
    proof (cases "map_of m' k")
      case None
      with rs [of k] show ?thesis by (auto simp: map_of_eq_None_iff split: if_splits)
    next
      case (Some a)
      then have "(k, a) \<in> set m'" by (rule map_of_SomeD)
      then have "k \<in> fst ` set m'" by force
      with rs [of k] Some show ?thesis by (auto split: if_splits)
    qed
    then show ?thesis by blast
  qed
  have each: "arrays' (queued_renders q)
      = renders_of_key toStr (queued_key toStr q) (map (read_outline arrays) outlines)"
    if "q \<in> snd ` set m'" for q
  proof -
    from that obtain k where mem: "(k, q) \<in> set m'" by auto
    with ok' have k: "queued_key toStr q = k" by (auto simp: merged_ok_def list_all_iff)
    from mem d have "map_of m' k = Some q" by simp
    with rs [of k] k show ?thesis by (auto split: if_splits)
  qed
  have "mergeOutlines toStr outlines arrays = (Inr (map snd m'), arrays')"
    by (simp add: mergeOutlines_def run)
  moreover have "distinct (map (region_key toStr) (map (read_outline arrays') (map snd m')))"
    unfolding keys by (rule d)
  moreover have "set (map (region_key toStr) (map (read_outline arrays') (map snd m')))
      = set (map (region_key toStr) (map (read_outline arrays) outlines))"
    unfolding keys keys_in using dom_eq by simp
  moreover have "list_all (\<lambda>pending. renders pending
                     = renders_of_key toStr (region_key toStr pending)
                         (map (read_outline arrays) outlines))
         (map (read_outline arrays') (map snd m'))"
    using each by (auto simp: list_all_iff read_outline_key read_outline_renders)
  ultimately show ?thesis using tot by blast
qed

lemma mergeOutlines_example:
  "fst (mergeOutlines example_toString [queued_a, queued_b, queued_c] example_arrays)
     = Inr [queued_a, queued_b]"
  "map (snd (mergeOutlines example_toString [queued_a, queued_b, queued_c] example_arrays))
     [11, 12, 13]
     = [[render_of (Some (lit ''A'')), render_of (Some (lit ''C'')), render_of (Some (lit ''C''))],
        [render_of (Some (lit ''B''))],
        [render_of (Some (lit ''C'')), render_of (Some (lit ''C''))]]"
  "list_all is_dom_outline (map (read_outline example_arrays) [queued_a, queued_b, queued_c])"
  "distinct (map queued_renders [queued_a, queued_b, queued_c])"
  "total_renders (map (read_outline example_arrays) [queued_a, queued_b, queued_c]) = 4"
  by code_simp+

theorem mergeOutlines_merges_by_key_witness:
  "fst (mergeOutlines example_toString [queued_a, queued_b, queued_c] example_arrays)
     = Inr [queued_a, queued_b]
   \<and> map (snd (mergeOutlines example_toString [queued_a, queued_b, queued_c] example_arrays))
       [11, 12, 13]
       = [[render_of (Some (lit ''A'')), render_of (Some (lit ''C'')),
           render_of (Some (lit ''C''))],
          [render_of (Some (lit ''B''))],
          [render_of (Some (lit ''C'')), render_of (Some (lit ''C''))]]
   \<and> total_renders (map (read_outline
         (snd (mergeOutlines example_toString [queued_a, queued_b, queued_c] example_arrays)))
         [queued_a, queued_b]) = 4"
proof -
  from mergeOutlines_merges_by_key [OF mergeOutlines_example(3,4), of example_toString]
  obtain merged arrays' where
    run: "mergeOutlines example_toString [queued_a, queued_b, queued_c] example_arrays
            = (Inr merged, arrays')"
    and tot: "total_renders (map (read_outline arrays') merged)
            = total_renders (map (read_outline example_arrays) [queued_a, queued_b, queued_c])"
    by blast
  from run mergeOutlines_example(1) have "merged = [queued_a, queued_b]" by simp
  with run tot mergeOutlines_example(5) have
    "total_renders (map (read_outline
         (snd (mergeOutlines example_toString [queued_a, queued_b, queued_c] example_arrays)))
         [queued_a, queued_b]) = 4" by simp
  with mergeOutlines_example(1,2) show ?thesis by blast
qed

text \<open>
  C6, as the specification has it, for every input list, fails in two ways. On a list
  that holds an outline whose measurement is of kind native, \<open>mergeOutlines\<close> throws
  and returns no outline. And on the list \<open>[c, a, c]\<close> of kind dom that holds the outline
  \<open>c\<close> twice, where \<open>a\<close> and \<open>c\<close> have the same region key, the one outline
  returned ends with six renders where the list held five: the second \<open>c\<close> is appended
  to its own array, which by then holds the renders of \<open>c\<close> and \<open>a\<close>.
\<close>

theorem mergeOutlines_counterexample:
  "fst (mergeOutlines example_toString [queued_a, queued_native] example_arrays)
     = Inl (Error ''dom invariant'')
   \<and> list_all is_dom_outline (map (read_outline example_arrays) [queued_c, queued_a, queued_c])
   \<and> total_renders (map (read_outline example_arrays) [queued_c, queued_a, queued_c]) = 5
   \<and> fst (mergeOutlines example_toString [queued_c, queued_a, queued_c] example_arrays)
       = Inr [queued_c]
   \<and> snd (mergeOutlines example_toString [queued_c, queued_a, queued_c] example_arrays) 13
       = [render_of (Some (lit ''C'')), render_of (Some (lit ''C'')),
          render_of (Some (lit ''A'')),
          render_of (Some (lit ''C'')), render_of (Some (lit ''C'')),
          render_of (Some (lit ''A''))]"
  by code_simp

section \<open>The animation tick\<close>

lemma fadeOutOutline_step_dom:
  "is_dom_outline (outline a) \<Longrightarrow>
   \<exists>acc'. fadeOutOutline_step env a acc = Inr (faded env a, acc')"
  by (cases "latestMeasurement (outline a)")
     (simp_all add: is_dom_outline_def fadeOutOutline_step_def assertDom_def and_then_def
        Let_def faded_def)

lemma splice1_update: "i < length xs \<Longrightarrow> splice1 i (xs [i := x]) = take i xs @ drop (Suc i) xs"
  by (simp add: splice1_def)

lemma fadeOutOutline_loop_dom:
  assumes "i \<le> length outlines" and "list_all (\<lambda>a. is_dom_outline (outline a)) (take i outlines)"
  shows "\<exists>acc'. fadeOutOutline_loop env i outlines acc
           = (None, filter (\<lambda>a. \<not> frame a > totalFrames a) (map (faded env) (take i outlines))
                    @ drop i outlines, acc')"
  using assms
proof (induction i arbitrary: outlines acc)
  case 0
  then show ?case by simp
next
  case (Suc i)
  let ?a = "outlines ! i"
  from Suc.prems have i: "i < length outlines" by simp
  then have tk: "take (Suc i) outlines = take i outlines @ [?a]"
    by (rule take_Suc_conv_app_nth)
  with Suc.prems(2) have dom_a: "is_dom_outline (outline ?a)"
    and dom_rest: "list_all (\<lambda>a. is_dom_outline (outline a)) (take i outlines)"
    by simp_all
  from fadeOutOutline_step_dom [OF dom_a] obtain acc1 where
    step: "fadeOutOutline_step env ?a acc = Inr (faded env ?a, acc1)" by blast
  show ?case
  proof (cases "frame (faded env ?a) > totalFrames (faded env ?a)")
    case True
    let ?L = "take i outlines @ drop (Suc i) outlines"
    have len: "i \<le> length ?L" using i by simp
    have tkL: "take i ?L = take i outlines" using i by simp
    have drL: "drop i ?L = drop (Suc i) outlines" using i by simp
    from Suc.IH [OF len, of acc1] dom_rest tkL drL obtain acc' where
      "fadeOutOutline_loop env i ?L acc1
         = (None, filter (\<lambda>a. \<not> frame a > totalFrames a) (map (faded env) (take i outlines))
                  @ drop (Suc i) outlines, acc')"
      by auto
    with i step True tk show ?thesis
      by (auto simp: splice1_update)
  next
    case False
    let ?L = "outlines [i := faded env ?a]"
    have len: "i \<le> length ?L" using i by simp
    have tkL: "take i ?L = take i outlines" by simp
    have drL: "drop i ?L = faded env ?a # drop (Suc i) outlines"
      using i by (simp add: drop_update_cancel Cons_nth_drop_Suc [symmetric] upd_conv_take_nth_drop)
    from Suc.IH [OF len, of acc1] dom_rest tkL drL obtain acc' where
      "fadeOutOutline_loop env i ?L acc1
         = (None, filter (\<lambda>a. \<not> frame a > totalFrames a) (map (faded env) (take i outlines))
                  @ faded env ?a # drop (Suc i) outlines, acc')"
      by auto
    with i step False tk show ?thesis
      by auto
  qed
qed

lemma painted_state_lifecycle:
  "map (\<lambda>a. (frame a, totalFrames a)) (activeOutlines painted_state) = [(0, 5)]"
  "paint_events painted_state = [PaintStart outline_a]"
  "onPaintFinish (options (ticks 5 painted_state)) = True"
  "map (\<lambda>a. (frame a, totalFrames a)) (activeOutlines (ticks 2 painted_state)) = [(2, 5)]"
  "map (\<lambda>a. (frame a, totalFrames a)) (activeOutlines (ticks 5 painted_state)) = [(5, 5)]"
  "paint_events (ticks 5 painted_state) = [PaintStart outline_a]"
  "activeOutlines (ticks 6 painted_state) = []"
  by code_simp+

lemma ticks_6: "ticks 6 s = snd (fadeOutOutline example_web_env (ticks 5 s))"
  by (simp add: eval_nat_numeral)

text \<open>
  C7. When the fade of an active outline completes, \<open>onPaintFinish\<close> is to be called
  for it. The tick that removes the outline calls nothing: an animation tick leaves
  the record of the calls to the paint callbacks as it was. (The completion callback
  is stored in the active outline by \<open>paintOutline\<close>; no function calls it.)
\<close>

theorem fadeOutOutline_never_finishes:
  "paint_events (snd (fadeOutOutline env s)) = paint_events s"
  by (simp add: fadeOutOutline_def split: prod.splits option.splits)

theorem fadeOutOutline_never_finishes_witness:
  "map (\<lambda>a. (frame a, totalFrames a)) (activeOutlines (ticks 5 painted_state)) = [(5, 5)]
   \<and> onPaintFinish (options (ticks 5 painted_state))
   \<and> activeOutlines (ticks 6 painted_state) = []
   \<and> paint_events (ticks 6 painted_state) = [PaintStart outline_a]"
proof -
  have "paint_events (ticks 6 painted_state) = paint_events (ticks 5 painted_state)"
    unfolding ticks_6 by (rule fadeOutOutline_never_finishes)
  with painted_state_lifecycle show ?thesis by simp
qed

text \<open>
  C8, as the code has it. In an animation tick over active outlines of kind dom, the
  frame of every outline is incremented by one, its \<open>totalFrames\<close> stays, and the tick
  removes exactly the outlines whose incremented frame exceeds \<open>totalFrames\<close>: the
  outlines that stay are those with \<open>frame \<le> totalFrames\<close>, in their order.
\<close>

theorem fadeOutOutline_tick:
  assumes "list_all (\<lambda>a. is_dom_outline (outline a)) (activeOutlines s)"
  shows "fst (fadeOutOutline env s) = None
     \<and> activeOutlines (snd (fadeOutOutline env s))
         = filter (\<lambda>a. frame a \<le> totalFrames a) (map (faded env) (activeOutlines s))
     \<and> map frame (map (faded env) (activeOutlines s)) = map (\<lambda>a. frame a + 1) (activeOutlines s)
     \<and> map totalFrames (map (faded env) (activeOutlines s)) = map totalFrames (activeOutlines s)"
proof -
  from fadeOutOutline_loop_dom [of "length (activeOutlines s)" "activeOutlines s" env empty_frame]
    assms
  obtain acc' where
    "fadeOutOutline_loop env (length (activeOutlines s)) (activeOutlines s) empty_frame
       = (None, filter (\<lambda>a. \<not> frame a > totalFrames a) (map (faded env) (activeOutlines s)), acc')"
    by auto
  then show ?thesis
    by (simp add: fadeOutOutline_def faded_def not_less)
qed

lemma two_outlines_state_eval:
  "list_all (\<lambda>a. is_dom_outline (outline a)) (activeOutlines two_outlines_state)"
  "map (\<lambda>a. (frame a, totalFrames a)) (activeOutlines two_outlines_state) = [(5, 5), (0, 60)]"
  "map (\<lambda>a. (frame a, totalFrames a))
     (filter (\<lambda>a. frame a \<le> totalFrames a)
        (map (faded example_web_env) (activeOutlines two_outlines_state))) = [(1, 60)]"
  by code_simp+

theorem fadeOutOutline_tick_witness:
  "map (\<lambda>a. (frame a, totalFrames a)) (activeOutlines two_outlines_state) = [(5, 5), (0, 60)]
   \<and> fst (fadeOutOutline example_web_env two_outlines_state) = None
   \<and> map (\<lambda>a. (frame a, totalFrames a))
         (activeOutlines (snd (fadeOutOutline example_web_env two_outlines_state))) = [(1, 60)]"
  using fadeOutOutline_tick [OF two_outlines_state_eval(1), of example_web_env]
  by (simp add: two_outlines_state_eval)

text \<open>
  C8, as the specification has it, fails twice. An active outline is also removed by
  \<open>recalcOutlines\<close>, at frame 0 of 5, when its element has no visible rectangle; and
  the frame of an active outline goes back from 2 to 0 when \<open>paintOutline\<close> paints an
  outline of the same region key between two ticks.
\<close>

theorem activeOutline_removal_counterexample:
  "map (\<lambda>a. (frame a, totalFrames a)) (activeOutlines host_state) = [(0, 5)]
   \<and> recalcOutlines hidden_window host_state
       = (None, host_state \<lparr> activeOutlines := [] \<rparr>)
   \<and> map (\<lambda>a. (frame a, totalFrames a)) (activeOutlines (ticks 2 painted_state)) = [(2, 5)]
   \<and> map (\<lambda>a. (frame a, totalFrames a))
         (activeOutlines (snd (paintOutline example_web_env outline_c (ticks 2 painted_state))))
       = [(0, 5)]"
  by code_simp

section \<open>The colour of an outline\<close>

lemma round_bounds:
  fixes t :: rat
  assumes "0 \<le> t" "t \<le> 1"
  shows "115 \<le> \<lfloor>115 + t * (185 - 115) + 1 / 2\<rfloor> \<and> \<lfloor>115 + t * (185 - 115) + 1 / 2\<rfloor> \<le> 185"
    and "49 \<le> \<lfloor>97 + t * (49 - 97) + 1 / 2\<rfloor> \<and> \<lfloor>97 + t * (49 - 97) + 1 / 2\<rfloor> \<le> 97"
    and "115 \<le> \<lfloor>230 + t * (115 - 230) + 1 / 2\<rfloor> \<and> \<lfloor>230 + t * (115 - 230) + 1 / 2\<rfloor> \<le> 230"
  using assms by (simp_all add: le_floor_iff floor_le_iff)

lemma paintOutline_t_range:
  assumes "num_less (Finite 0) (case mr of None \<Rightarrow> Finite 20 | Some m \<Rightarrow> m)"
  shows "\<exists>t. paintOutline_t mr n = Finite t \<and> 0 \<le> t \<and> t \<le> 1"
proof -
  let ?m = "case mr of None \<Rightarrow> Finite 20 | Some m \<Rightarrow> m"
  show ?thesis
  proof (cases ?m)
    case NaN
    with assms show ?thesis by simp
  next
    case NegInfinity
    with assms show ?thesis by simp
  next
    case PosInfinity
    then show ?thesis by (simp add: paintOutline_t_def Math_min_def)
  next
    case (Finite m)
    with assms have "0 < m" by simp
    then have "0 \<le> rat_of_nat n / m" by simp
    with Finite \<open>0 < m\<close> show ?thesis
      by (auto simp: paintOutline_t_def Math_min_def)
  qed
qed

text \<open>
  C9, as the code has it. The interpolation factor is
  \<^verbatim>\<open>Math.min(renderCount / (maxRenders ?? 20), 1)\<close>, with no lower clamp. For every
  render count and every \<open>maxRenders\<close> that is positive (or absent: 20), the factor lies
  in [0, 1] and each channel of the colour is an integer between the start and the end
  value of the channel. For 25 renders and \<open>maxRenders = 20\<close> the factor is 1 and the
  colour is the end colour.
\<close>

theorem paintOutline_color_in_range:
  assumes "num_less (Finite 0) (case mr of None \<Rightarrow> Finite 20 | Some m \<Rightarrow> m)"
  shows "(\<exists>t. paintOutline_t mr n = Finite t \<and> 0 \<le> t \<and> t \<le> 1
              \<and> paintOutline_t mr n
                  = Math_min (num_div (Finite (of_nat n)) (case mr of None \<Rightarrow> Finite 20 | Some m \<Rightarrow> m)) (Finite 1))
     \<and> (\<exists>r g b :: int. paintOutline_color mr n
            = \<lparr> rgb_r = Finite (of_int r), rgb_g = Finite (of_int g), rgb_b = Finite (of_int b) \<rparr>
          \<and> 115 \<le> r \<and> r \<le> 185 \<and> 49 \<le> g \<and> g \<le> 97 \<and> 115 \<le> b \<and> b \<le> 230)
     \<and> paintOutline_t (Some (Finite 20)) 25 = Finite 1
     \<and> paintOutline_color (Some (Finite 20)) 25 = endColor"
proof -
  from paintOutline_t_range [OF assms, of n] obtain t where
    t: "paintOutline_t mr n = Finite t" "0 \<le> t" "t \<le> 1" by blast
  have col: "paintOutline_color mr n
      = \<lparr> rgb_r = Finite (of_int \<lfloor>115 + t * (185 - 115) + 1 / 2\<rfloor>),
          rgb_g = Finite (of_int \<lfloor>97 + t * (49 - 97) + 1 / 2\<rfloor>),
          rgb_b = Finite (of_int \<lfloor>230 + t * (115 - 230) + 1 / 2\<rfloor>) \<rparr>"
    by (simp add: paintOutline_color_def t(1) startColor_def endColor_def num_sub_def)
  have scen_t: "paintOutline_t (Some (Finite 20)) 25 = Finite 1"
    by (simp add: paintOutline_t_def Math_min_def)
  have scen: "paintOutline_color (Some (Finite 20)) 25 = endColor"
    by code_simp
  from t col round_bounds [OF t(2,3)] scen_t scen show ?thesis
    by (auto simp: paintOutline_t_def)
qed

theorem paintOutline_color_in_range_witness:
  "paintOutline_t None 10 = Finite (1 / 2)
   \<and> paintOutline_color None 10
       = \<lparr> rgb_r = Finite 150, rgb_g = Finite 73, rgb_b = Finite 173 \<rparr>
   \<and> paintOutline_color (Some (Finite 20)) 25 = endColor"
proof -
  have pos: "num_less (Finite 0) (case None of None \<Rightarrow> Finite 20 | Some m \<Rightarrow> m)"
    by simp
  have t: "paintOutline_t None 10 = Finite (1 / 2)" by code_simp
  have c: "paintOutline_color None 10
       = \<lparr> rgb_r = Finite 150, rgb_g = Finite 73, rgb_b = Finite 173 \<rparr>" by code_simp
  from paintOutline_color_in_range [OF pos, of 10] t c show ?thesis by simp
qed

text \<open>
  C9, as the specification has it, fails for a negative \<open>maxRenders\<close>: with 25 renders
  and \<open>maxRenders = -1\<close> the factor is -25, not clamped to 0, and every channel is out
  of its range.
\<close>

theorem paintOutline_color_counterexample:
  "paintOutline_t (Some (Finite (- 1))) 25 = Finite (- 25)
   \<and> paintOutline_color (Some (Finite (- 1))) 25
       = \<lparr> rgb_r = Finite (- 1635), rgb_g = Finite 1297, rgb_b = Finite 3105 \<rparr>"
  by code_simp

section \<open>The label of an outline\<close>

lemma getLabelText_loop_blank:
  "list_all (\<lambda>r. name_is_blank (render_name r)) rs \<Longrightarrow> getLabelText_loop rs components = components"
  by (induction rs arbitrary: components) simp_all

lemma getLabelText_loop_filter:
  "getLabelText_loop (filter (\<lambda>r. \<not> name_is_blank (render_name r)) rs) components
     = getLabelText_loop rs components"
  by (induction rs arbitrary: components) (simp_all add: Let_def)

text \<open>
  C10. \<open>getLabelText\<close> returns null when every render of the list has a name that is
  null or blank (empty or white space only); it never returns the empty string; the
  renders with such a name do not count: the label is that of the list without them;
  and a label has at most 21 code units (20 and the ellipsis).
\<close>

theorem getLabelText_label:
  "(list_all (\<lambda>r. name_is_blank (render_name r)) rs \<longrightarrow> getLabelText toStr rs env = None)
   \<and> getLabelText toStr rs env \<noteq> Some []
   \<and> getLabelText toStr (filter (\<lambda>r. \<not> name_is_blank (render_name r)) rs) env
       = getLabelText toStr rs env
   \<and> (\<forall>label. getLabelText toStr rs env = Some label \<longrightarrow> length label \<le> 21)"
proof -
  have a: "list_all (\<lambda>r. name_is_blank (render_name r)) rs \<Longrightarrow> getLabelText toStr rs env = None"
    by (simp add: getLabelText_def getLabelText_loop_blank)
  have b: "getLabelText toStr rs env \<noteq> Some []"
    by (simp add: getLabelText_def Let_def)
  have c: "getLabelText toStr (filter (\<lambda>r. \<not> name_is_blank (render_name r)) rs) env
       = getLabelText toStr rs env"
    by (simp add: getLabelText_def getLabelText_loop_filter)
  have d: "length label \<le> 21" if "getLabelText toStr rs env = Some label" for label
    using that by (auto simp: getLabelText_def Let_def split: if_splits)
  from a b c d show ?thesis by blast
qed

theorem getLabelText_label_witness:
  "getLabelText example_toString [render_of None, render_of (Some (lit ''   ''))] env_dom = None
   \<and> getLabelText example_toString label_renders env_dom
       = Some (lit ''Counter '' @ [0xD7] @ lit ''2 VeryLongC'' @ [0x2026])
   \<and> getLabelText example_toString
         (filter (\<lambda>r. \<not> name_is_blank (render_name r)) label_renders) env_dom
       = Some (lit ''Counter '' @ [0xD7] @ lit ''2 VeryLongC'' @ [0x2026])
   \<and> length (lit ''Counter '' @ [0xD7] @ lit ''2 VeryLongC'' @ [0x2026]) = 21"
proof -
  have blank: "list_all (\<lambda>r. name_is_blank (render_name r))
                 [render_of None, render_of (Some (lit ''   ''))]"
    by code_simp
  have label: "getLabelText example_toString label_renders env_dom
       = Some (lit ''Counter '' @ [0xD7] @ lit ''2 VeryLongC'' @ [0x2026])"
    by code_simp
  have len: "length (lit ''Counter '' @ [0xD7] @ lit ''2 VeryLongC'' @ [0x2026]) = 21"
    by (simp add: lit_def)
  from getLabelText_label [of "[render_of None, render_of (Some (lit ''   ''))]"
      example_toString env_dom] blank
  have n: "getLabelText example_toString [render_of None, render_of (Some (lit ''   ''))] env_dom
             = None"
    by blast
  from getLabelText_label [of label_renders example_toString env_dom] label
  have f: "getLabelText example_toString
         (filter (\<lambda>r. \<not> name_is_blank (render_name r)) label_renders) env_dom
       = Some (lit ''Counter '' @ [0xD7] @ lit ''2 VeryLongC'' @ [0x2026])"
    by simp
  from n label f len show ?thesis by blast
qed

end
